theory Spec2Isabelle
  imports Main
begin

section \<open>The thread-safe engine facade of lib/multi.go\<close>

text \<open>
  The development embeds \<^verbatim>\<open>createEphemeralObjects\<close>, \<^verbatim>\<open>NewThreadSafeNucleiEngine\<close> and
  \<^verbatim>\<open>ExecuteNucleiWithOpts\<close> of \<^verbatim>\<open>src/lib/multi.go\<close>. Go objects that are reached through
  pointers and mutated (the options structs, the backing arrays of their slices, the rate
  limiters, the core engines) live in an explicit store; every pointer is an address of
  that store. Calls into packages whose
  code is not part of \<^verbatim>\<open>src/\<close> are parameters of the model (record \<open>collaborators\<close>), and
  each such call is written to an event log in the order the source makes it.
\<close>

subsection \<open>Data\<close>

type_synonym addr = nat

text \<open>An interface value or pointer of a shared subsystem; \<open>None\<close> is Go's \<^verbatim>\<open>nil\<close>.\<close>
type_synonym handle = "nat option"

text \<open>\<^verbatim>\<open>time.Duration\<close> counts nanoseconds.\<close>
type_synonym Duration = int

definition Second :: Duration where
  "Second = 1000000000"

definition Minute :: Duration where
  "Minute = 60 * Second"

text \<open>
  The errors the facade can return: its two sentinels, the wrapper built by
  \<^verbatim>\<open>errorutil.New(msg, err)\<close>, and any other error value that an option function or a
  collaborator produces.
\<close>
datatype error =
    ErrNoTemplatesAvailable
  | ErrNoTargetsAvailable
  | errorutil_New string error
  | OtherError string

text \<open>
  A Go slice of strings: a pointer to its backing array and a length. Copying the slice
  copies this header only; the copy points to the same backing array. The capacity plays
  no role in what follows and is left out.
\<close>
record StringSlice =
  sliceArray :: addr
  sliceLen :: nat

text \<open>
  \<^verbatim>\<open>types.Options\<close>. Its declaration is not part of \<^verbatim>\<open>src/\<close>. The record has the two
  fields that \<^verbatim>\<open>multi.go\<close> reads, both Go \<^verbatim>\<open>int\<close> (they are only compared with zero and
  converted to \<^verbatim>\<open>uint\<close> when positive, so no arithmetic can wrap), and one field of
  reference type, the string slice \<^verbatim>\<open>Tags\<close>, which stands for the slice and map fields of
  the struct: a copy of the struct shares their storage with the original.
\<close>
record types_Options =
  RateLimit :: int
  RateLimitMinute :: int
  Tags :: StringSlice

datatype engineMode = singleInstance | threadSafe

text \<open>The fields of \<^verbatim>\<open>NucleiEngine\<close> that \<^verbatim>\<open>multi.go\<close> uses.\<close>
record NucleiEngine =
  opts :: addr
  mode :: engineMode
  customWriter :: handle
  customProgress :: handle
  catalog :: handle
  rc :: handle
  rateLimiter :: "addr option"
  interactshClient :: handle
  hostErrCache :: handle

record ThreadSafeNucleiEngine =
  eng :: NucleiEngine

text \<open>A limiter as \<^verbatim>\<open>ratelimit.New(ctx, max, duration)\<close> or \<^verbatim>\<open>ratelimit.NewUnlimited(ctx)\<close> builds it.\<close>
datatype Limiter =
    Limiter nat Duration
  | Unlimited

datatype Aurora = NewAurora bool

datatype ResumeCfg = NewResumeCfg

text \<open>\<^verbatim>\<open>protocols.ExecutorOptions\<close>, a struct that is copied by value.\<close>
record ExecutorOptions =
  Output :: handle
  Options :: addr
  Progress :: handle
  Catalog :: handle
  IssuesClient :: handle
  RateLimiter :: "addr option"
  Interactsh :: handle
  HostErrorsCache :: handle
  Colorizer :: Aurora
  ResumeCfg :: ResumeCfg
  WorkflowLoader :: handle

record unsafeOptions =
  executerOpts :: ExecutorOptions
  engine :: addr

text \<open>
  Modelled from the spec: \<^verbatim>\<open>core.Engine\<close> (package \<^verbatim>\<open>pkg/core\<close>) is missing from \<^verbatim>\<open>src/\<close>.
  An executor instance is bound to the options it was created with and to the execution
  options set on it; its work pool is identified with the engine's address.
\<close>
record Engine =
  engineOptions :: addr
  engineExecuterOptions :: "ExecutorOptions option"

datatype Template = Template string

text \<open>The loader's store after loading: what \<^verbatim>\<open>Templates()\<close> and \<^verbatim>\<open>Workflows()\<close> return.\<close>
record Store =
  Templates :: "Template list"
  Workflows :: "Template list"

text \<open>\<^verbatim>\<open>loader.NewConfig(options, catalog, executerOpts)\<close>.\<close>
datatype Config = NewConfig addr handle ExecutorOptions

datatype MetaInput = MetaInput string

record SimpleInputProvider =
  Inputs :: "MetaInput list"

text \<open>The calls into other packages, in the order they are made.\<close>
datatype event =
    OptionApplied
  | EngineInit
  | ParsersNewLoader ExecutorOptions
  | LoaderNew Config
  | StoreLoad
  | ExecuteScanWithOpts addr "Template list" "MetaInput list" bool
  | WorkPoolWait addr

text \<open>
  The store. Each kind of object has its cells and an allocation counter: the addresses
  below the counter are the ones allocated so far, and an allocation returns the counter.
\<close>
record world =
  optionsHeap :: "addr \<Rightarrow> types_Options"
  nextOptions :: addr
  sliceHeap :: "addr \<Rightarrow> string list"
  nextSlice :: addr
  limiterHeap :: "addr \<Rightarrow> Limiter"
  nextLimiter :: addr
  engineHeap :: "addr \<Rightarrow> Engine"
  nextEngine :: addr
  events :: "event list"

text \<open>
  The part of the store that an option function can reach from the engine it is given:
  the options structs and the backing arrays of their slices.
\<close>
record memory =
  options_of :: "addr \<Rightarrow> types_Options"
  options_next :: addr
  arrays_of :: "addr \<Rightarrow> string list"
  arrays_next :: addr

definition memoryOf :: "world \<Rightarrow> memory" where
  "memoryOf w =
     \<lparr>options_of = optionsHeap w, options_next = nextOptions w,
      arrays_of = sliceHeap w, arrays_next = nextSlice w\<rparr>"

definition withMemory :: "memory \<Rightarrow> world \<Rightarrow> world" where
  "withMemory m w =
     w\<lparr>optionsHeap := options_of m, nextOptions := options_next m,
       sliceHeap := arrays_of m, nextSlice := arrays_next m\<rparr>"

text \<open>
  The type \<^verbatim>\<open>NucleiSDKOptions\<close> is \<^verbatim>\<open>func(e *NucleiEngine) error\<close>; its declaration and the
  option functions themselves are missing from \<^verbatim>\<open>src/\<close>, so an option function is a
  parameter. It receives the engine and the memory, and returns its error or \<^verbatim>\<open>nil\<close>, the
  engine as it leaves it (it may assign any field, \<^verbatim>\<open>e.opts\<close> included) and the memory
  as it leaves it (it may write any options struct and any backing array, and allocate
  new ones), also when it fails.
\<close>
type_synonym NucleiSDKOptions =
  "NucleiEngine \<Rightarrow> memory \<Rightarrow> error option \<times> NucleiEngine \<times> memory"

text \<open>
  The packages that \<^verbatim>\<open>multi.go\<close> calls and that are not part of \<^verbatim>\<open>src/\<close>. Each may read
  the store. \<open>ExecuteScan\<close> returns what \<^verbatim>\<open>engine.ExecuteScanWithOpts\<close> returns; the spec
  describes it as carrying an error, and the source discards it.
\<close>
record collaborators =
  DefaultOptions :: types_Options
  init :: "world \<Rightarrow> NucleiEngine \<Rightarrow> error option \<times> NucleiEngine"
  parsers_NewLoader :: "world \<Rightarrow> ExecutorOptions \<Rightarrow> error + nat"
  loader_New :: "world \<Rightarrow> Config \<Rightarrow> error + Store"
  Load :: "world \<Rightarrow> Store \<Rightarrow> Store"
  ExecuteScan :: "world \<Rightarrow> addr \<Rightarrow> Template list \<Rightarrow> MetaInput list \<Rightarrow> bool \<Rightarrow> error option"

subsection \<open>Allocation and logging\<close>

text \<open>A new options struct on the heap, holding the given value.\<close>
definition newOptions :: "types_Options \<Rightarrow> world \<Rightarrow> addr \<times> world" where
  "newOptions v w =
     (nextOptions w,
      w\<lparr>optionsHeap := (optionsHeap w)(nextOptions w := v), nextOptions := Suc (nextOptions w)\<rparr>)"

text \<open>
  The constructors of the external \<^verbatim>\<open>ratelimit\<close> library: each returns a pointer to a
  new limiter. The context argument is always \<^verbatim>\<open>context.Background()\<close> and is left out.
\<close>
definition ratelimit_New :: "nat \<Rightarrow> Duration \<Rightarrow> world \<Rightarrow> addr \<times> world" where
  "ratelimit_New max_count duration w =
     (nextLimiter w,
      w\<lparr>limiterHeap := (limiterHeap w)(nextLimiter w := Limiter max_count duration),
        nextLimiter := Suc (nextLimiter w)\<rparr>)"

definition ratelimit_NewUnlimited :: "world \<Rightarrow> addr \<times> world" where
  "ratelimit_NewUnlimited w =
     (nextLimiter w,
      w\<lparr>limiterHeap := (limiterHeap w)(nextLimiter w := Unlimited),
        nextLimiter := Suc (nextLimiter w)\<rparr>)"

text \<open>
  Modelled from the spec: \<^verbatim>\<open>core.New\<close> is missing from \<^verbatim>\<open>src/\<close>. It returns a fresh
  executor instance bound to the options it is given.
\<close>
definition core_New :: "addr \<Rightarrow> world \<Rightarrow> addr \<times> world" where
  "core_New options w =
     (nextEngine w,
      w\<lparr>engineHeap := (engineHeap w)
           (nextEngine w := \<lparr>engineOptions = options, engineExecuterOptions = None\<rparr>),
        nextEngine := Suc (nextEngine w)\<rparr>)"

text \<open>
  Modelled from the spec: \<^verbatim>\<open>Engine.SetExecuterOptions\<close> is missing from \<^verbatim>\<open>src/\<close>. It
  binds the executor instance to the execution options.
\<close>
definition SetExecuterOptions :: "addr \<Rightarrow> ExecutorOptions \<Rightarrow> world \<Rightarrow> world" where
  "SetExecuterOptions e options w =
     w\<lparr>engineHeap := (engineHeap w)
         (e := (engineHeap w e)\<lparr>engineExecuterOptions := Some options\<rparr>)\<rparr>"

text \<open>A call into another package is appended to the log.\<close>
definition record_event :: "event \<Rightarrow> world \<Rightarrow> world" where
  "record_event ev w = w\<lparr>events := events w @ [ev]\<rparr>"

subsection \<open>The input provider\<close>

text \<open>
  Modelled from the spec: \<^verbatim>\<open>SimpleInputProvider.Set\<close> (package \<^verbatim>\<open>pkg/core/inputs\<close>) is
  missing from \<^verbatim>\<open>src/\<close>. Section 4.4 of the spec: the provider accumulates the target
  strings it is given, and duplicates are preserved.
\<close>
definition inputProvider_Set :: "string \<Rightarrow> SimpleInputProvider \<Rightarrow> SimpleInputProvider" where
  "inputProvider_Set target p = p\<lparr>Inputs := Inputs p @ [MetaInput target]\<rparr>"

text \<open>
  Modelled from the spec: \<^verbatim>\<open>SimpleInputProvider.Count\<close> is missing from \<^verbatim>\<open>src/\<close>. Section
  4.4 of the spec: the provider exposes a count of what it has accumulated.
\<close>
definition inputProvider_Count :: "SimpleInputProvider \<Rightarrow> nat" where
  "inputProvider_Count p = length (Inputs p)"

text \<open>Lines 124 to 131: an empty provider, then one \<^verbatim>\<open>Set\<close> per target, in order.\<close>
definition loadTargets :: "string list \<Rightarrow> SimpleInputProvider" where
  "loadTargets targets = fold inputProvider_Set targets \<lparr>Inputs = []\<rparr>"

subsection \<open>createEphemeralObjects\<close>

text \<open>
  Lines 30 to 54. The struct literal takes the shared engine's limiter first; each branch
  of the quota test then replaces it. A quota is converted to \<^verbatim>\<open>uint\<close> only when it is
  above zero, where the conversion keeps its value. The function has one return
  statement, with a \<^verbatim>\<open>nil\<close> error.
\<close>
definition createEphemeralObjects ::
    "NucleiEngine \<Rightarrow> addr \<Rightarrow> world \<Rightarrow> (unsafeOptions \<times> error option) \<times> world" where
  "createEphemeralObjects base options w =
     (let executerOpts0 =
            \<lparr>Output = customWriter base,
             Options = options,
             Progress = customProgress base,
             Catalog = catalog base,
             IssuesClient = rc base,
             RateLimiter = rateLimiter base,
             Interactsh = interactshClient base,
             HostErrorsCache = hostErrCache base,
             Colorizer = NewAurora True,
             ResumeCfg = NewResumeCfg,
             WorkflowLoader = None\<rparr>;
          (limiter, w1) =
            (if RateLimitMinute (optionsHeap w options) > 0
             then ratelimit_New (nat (RateLimitMinute (optionsHeap w options))) Minute w
             else if RateLimit (optionsHeap w options) > 0
             then ratelimit_New (nat (RateLimit (optionsHeap w options))) Second w
             else ratelimit_NewUnlimited w);
          executerOpts1 = executerOpts0\<lparr>RateLimiter := Some limiter\<rparr>;
          (e, w2) = core_New options w1;
          w3 = SetExecuterOptions e executerOpts1 w2
      in ((\<lparr>executerOpts = executerOpts1, engine = e\<rparr>, None), w3))"

subsection \<open>Applying option functions\<close>

text \<open>
  The loop \<^verbatim>\<open>for _, option := range opts\<close> of both entry points: each option function is
  called on the engine; the first error ends the loop. The engine is returned as the
  option functions left it, since the source reads its fields after the loop.
\<close>
fun applyOptions ::
    "NucleiSDKOptions list \<Rightarrow> NucleiEngine \<Rightarrow> world \<Rightarrow> error option \<times> NucleiEngine \<times> world" where
  "applyOptions [] e w = (None, e, w)"
| "applyOptions (option # rest) e w =
     (let (err, e', m') = option e (memoryOf w);
          w' = record_event OptionApplied (withMemory m' w)
      in case err of
           Some x \<Rightarrow> (Some x, e', w')
         | None \<Rightarrow> applyOptions rest e' w')"

subsection \<open>NewThreadSafeNucleiEngine\<close>

text \<open>Lines 67 to 70: the engine with default options; every other field is zero.\<close>
definition defaultEngine :: "collaborators \<Rightarrow> world \<Rightarrow> NucleiEngine \<times> world" where
  "defaultEngine env w =
     (let (p, w0) = newOptions (DefaultOptions env) w
      in (\<lparr>opts = p, mode = threadSafe, customWriter = None, customProgress = None,
           catalog = None, rc = None, rateLimiter = None, interactshClient = None,
           hostErrCache = None\<rparr>, w0))"

definition NewThreadSafeNucleiEngine ::
    "collaborators \<Rightarrow> NucleiSDKOptions list \<Rightarrow> world \<Rightarrow> (error + ThreadSafeNucleiEngine) \<times> world" where
  "NewThreadSafeNucleiEngine env options w =
     (let (e, w0) = defaultEngine env w
      in case applyOptions options e w0 of
           (Some err, e1, w1) \<Rightarrow> (Inl err, w1)
         | (None, e1, w1) \<Rightarrow>
             (case init env w1 e1 of
                (Some err, e') \<Rightarrow> (Inl err, record_event EngineInit w1)
              | (None, e') \<Rightarrow> (Inr \<lparr>eng = e'\<rparr>, record_event EngineInit w1)))"

subsection \<open>ExecuteNucleiWithOpts\<close>

text \<open>
  Lines 98 and 99: \<^verbatim>\<open>baseOpts := *e.eng.opts\<close> copies the struct into a new variable, and
  the temporary engine points to that copy.
\<close>
definition cloneBaseOptions :: "ThreadSafeNucleiEngine \<Rightarrow> world \<Rightarrow> NucleiEngine \<times> world" where
  "cloneBaseOptions e w =
     (let (baseOpts, w0) = newOptions (optionsHeap w (opts (eng e))) w
      in (\<lparr>opts = baseOpts, mode = threadSafe, customWriter = None, customProgress = None,
           catalog = None, rc = None, rateLimiter = None, interactshClient = None,
           hostErrCache = None\<rparr>, w0))"

text \<open>Lines 105 to 122: the ephemeral objects, the workflow loader and the loaded store.\<close>
definition loadTemplates ::
    "collaborators \<Rightarrow> ThreadSafeNucleiEngine \<Rightarrow> NucleiEngine \<Rightarrow> world
      \<Rightarrow> (error + unsafeOptions \<times> Store) \<times> world" where
  "loadTemplates env e tmpEngine w =
     (case createEphemeralObjects (eng e) (opts tmpEngine) w of
        ((unsafeOpts, Some err), w1) \<Rightarrow> (Inl err, w1)
      | ((unsafeOpts, None), w1) \<Rightarrow>
          (let w2 = record_event (ParsersNewLoader (executerOpts unsafeOpts)) w1
           in case parsers_NewLoader env w1 (executerOpts unsafeOpts) of
                Inl err \<Rightarrow>
                  (Inl (errorutil_New ''Could not create workflow loader: %s\<newline>'' err), w2)
              | Inr workflowLoader \<Rightarrow>
                  (let unsafeOpts' =
                         unsafeOpts\<lparr>executerOpts :=
                           (executerOpts unsafeOpts)\<lparr>WorkflowLoader := Some workflowLoader\<rparr>\<rparr>;
                       config =
                         NewConfig (opts tmpEngine) (catalog (eng e)) (executerOpts unsafeOpts');
                       w3 = record_event (LoaderNew config) w2
                   in case loader_New env w2 config of
                        Inl err \<Rightarrow>
                          (Inl (errorutil_New ''Could not create loader client: %s\<newline>'' err), w3)
                      | Inr store \<Rightarrow>
                          (Inr (unsafeOpts', Load env w3 store), record_event StoreLoad w3))))"

definition ExecuteNucleiWithOpts ::
    "collaborators \<Rightarrow> ThreadSafeNucleiEngine \<Rightarrow> string list \<Rightarrow> NucleiSDKOptions list \<Rightarrow> world
      \<Rightarrow> error option \<times> world" where
  "ExecuteNucleiWithOpts env e targets options w =
     (let (tmpEngine0, w0) = cloneBaseOptions e w
      in case applyOptions options tmpEngine0 w0 of
           (Some err, tmpEngine, w1) \<Rightarrow> (Some err, w1)
         | (None, tmpEngine, w1) \<Rightarrow>
             (case loadTemplates env e tmpEngine w1 of
                (Inl err, w2) \<Rightarrow> (Some err, w2)
              | (Inr (unsafeOpts, store), w2) \<Rightarrow>
                  (let inputProvider = loadTargets targets
                   in if length (Templates store) = 0 \<and> length (Workflows store) = 0
                      then (Some ErrNoTemplatesAvailable, w2)
                      else if inputProvider_Count inputProvider = 0
                      then (Some ErrNoTargetsAvailable, w2)
                      else
                        (let (scanEngine, w3) = core_New (opts tmpEngine) w2;
                             w4 = SetExecuterOptions scanEngine (executerOpts unsafeOpts) w3;
                             discarded =
                               ExecuteScan env w4 scanEngine (Templates store)
                                 (Inputs inputProvider) False;
                             w5 = record_event
                                    (ExecuteScanWithOpts scanEngine (Templates store)
                                       (Inputs inputProvider) False) w4;
                             w6 = record_event (WorkPoolWait scanEngine) w5
                         in (None, w6)))))"

subsection \<open>Derived notions used in the statements\<close>

text \<open>
  An option function that only assigns fields of the options struct of the engine it is
  given: it leaves the engine's options pointer, every other options struct and every
  backing array that exists alone; it may allocate new backing arrays.
\<close>
definition assignsOwnFields :: "NucleiSDKOptions \<Rightarrow> bool" where
  "assignsOwnFields f \<longleftrightarrow>
     (\<forall>e m. case f e m of
        (err, e', m') \<Rightarrow>
          opts e' = opts e
          \<and> options_next m' = options_next m
          \<and> (\<forall>a. a \<noteq> opts e \<longrightarrow> options_of m' a = options_of m a)
          \<and> arrays_next m \<le> arrays_next m'
          \<and> (\<forall>a<arrays_next m. arrays_of m' a = arrays_of m a))"

text \<open>What reading \<^verbatim>\<open>Tags\<close> of the options struct at an address yields.\<close>
definition readTags :: "addr \<Rightarrow> world \<Rightarrow> string list" where
  "readTags p w =
     take (sliceLen (Tags (optionsHeap w p))) (sliceHeap w (sliceArray (Tags (optionsHeap w p))))"

text \<open>The store after lines 140 to 145, written out once.\<close>
definition scanWorld :: "NucleiEngine \<Rightarrow> unsafeOptions \<Rightarrow> Store \<Rightarrow> string list \<Rightarrow> world \<Rightarrow> world" where
  "scanWorld tmp u store targets w2 =
     record_event (WorkPoolWait (nextEngine w2))
       (record_event (ExecuteScanWithOpts (nextEngine w2) (Templates store) (map MetaInput targets) False)
         (SetExecuterOptions (nextEngine w2) (executerOpts u) (snd (core_New (opts tmp) w2))))"

subsection \<open>Concrete inputs\<close>

text \<open>
  A store in which address 0 holds the shared base options, their tags and the shared
  limiter, a facade engine pointing to them, collaborators whose loader resolves the
  given templates and workflows and whose scan reports an error, and four option
  functions: two assign a quota, one fails, and one overwrites the first element of the
  tags in place.
\<close>
definition example_world :: world where
  "example_world =
     \<lparr>optionsHeap =
        (\<lambda>_. \<lparr>RateLimit = 150, RateLimitMinute = 0,
              Tags = \<lparr>sliceArray = 0, sliceLen = 1\<rparr>\<rparr>),
      nextOptions = 1,
      sliceHeap = (\<lambda>_. [''cve'']), nextSlice = 1,
      limiterHeap = (\<lambda>_. Limiter 150 Second), nextLimiter = 1,
      engineHeap = (\<lambda>_. \<lparr>engineOptions = 0, engineExecuterOptions = None\<rparr>), nextEngine = 0,
      events = []\<rparr>"

definition example_facade :: ThreadSafeNucleiEngine where
  "example_facade =
     \<lparr>eng = \<lparr>opts = 0, mode = threadSafe, customWriter = Some 1, customProgress = Some 2,
             catalog = Some 3, rc = None, rateLimiter = Some 0, interactshClient = Some 4,
             hostErrCache = Some 5\<rparr>\<rparr>"

definition example_env :: "Template list \<Rightarrow> Template list \<Rightarrow> collaborators" where
  "example_env ts ws =
     \<lparr>DefaultOptions =
        \<lparr>RateLimit = 150, RateLimitMinute = 0, Tags = \<lparr>sliceArray = 0, sliceLen = 0\<rparr>\<rparr>,
      init = (\<lambda>w e. (None, e)),
      parsers_NewLoader = (\<lambda>w x. Inr 6),
      loader_New = (\<lambda>w c. Inr \<lparr>Templates = [], Workflows = []\<rparr>),
      Load = (\<lambda>w s. \<lparr>Templates = ts, Workflows = ws\<rparr>),
      ExecuteScan = (\<lambda>w e t i d. Some (OtherError ''scan failed''))\<rparr>"

text \<open>The assignment \<^verbatim>\<open>e.opts.field = value\<close>, for a field update \<open>g\<close>.\<close>
definition assignField :: "(types_Options \<Rightarrow> types_Options) \<Rightarrow> NucleiEngine \<Rightarrow> memory \<Rightarrow> memory" where
  "assignField g e m = m\<lparr>options_of := (options_of m)(opts e := g (options_of m (opts e)))\<rparr>"

definition with_RateLimit :: "int \<Rightarrow> NucleiSDKOptions" where
  "with_RateLimit n = (\<lambda>e m. (None, e, assignField (\<lambda>v. v\<lparr>RateLimit := n\<rparr>) e m))"

definition with_RateLimitMinute :: "int \<Rightarrow> NucleiSDKOptions" where
  "with_RateLimitMinute n = (\<lambda>e m. (None, e, assignField (\<lambda>v. v\<lparr>RateLimitMinute := n\<rparr>) e m))"

definition failing_option :: NucleiSDKOptions where
  "failing_option =
     (\<lambda>e m. (Some (OtherError ''option not supported''), e,
              assignField (\<lambda>v. v\<lparr>RateLimit := 0\<rparr>) e m))"

text \<open>
  The element write \<^verbatim>\<open>e.opts.Tags[0] = tag\<close>. On an empty slice the index is out of
  range; the option function then changes nothing and reports it.
\<close>
definition overwrite_first_tag :: "string \<Rightarrow> NucleiSDKOptions" where
  "overwrite_first_tag tag =
     (\<lambda>e m.
        if 0 < sliceLen (Tags (options_of m (opts e)))
        then (None, e,
              m\<lparr>arrays_of := (arrays_of m)
                   (sliceArray (Tags (options_of m (opts e))) :=
                      (arrays_of m (sliceArray (Tags (options_of m (opts e)))))[0 := tag])\<rparr>)
        else (Some (OtherError ''index out of range''), e, m))"

section \<open>Properties\<close>

subsection \<open>Auxiliary facts\<close>

lemma applyOptions_frame:
  "applyOptions fs e w = (r, e', w') \<Longrightarrow>
     limiterHeap w' = limiterHeap w \<and> nextLimiter w' = nextLimiter w \<and>
     engineHeap w' = engineHeap w \<and> nextEngine w' = nextEngine w"
proof (induction fs arbitrary: e w)
  case Nil
  then show ?case by simp
next
  case (Cons f fs)
  obtain err e1 m1 where fv: "f e (memoryOf w) = (err, e1, m1)"
    by (cases "f e (memoryOf w)")
  define w1 where "w1 = record_event OptionApplied (withMemory m1 w)"
  have same: "limiterHeap w1 = limiterHeap w \<and> nextLimiter w1 = nextLimiter w \<and>
      engineHeap w1 = engineHeap w \<and> nextEngine w1 = nextEngine w"
    by (simp add: w1_def record_event_def withMemory_def)
  show ?case
  proof (cases err)
    case None
    with Cons.prems fv have "applyOptions fs e1 w1 = (r, e', w')"
      by (simp add: w1_def)
    from Cons.IH[OF this] show ?thesis
      by (simp add: same)
  next
    case (Some x)
    with Cons.prems fv have "w' = w1"
      by (simp add: w1_def)
    then show ?thesis
      by (simp add: same)
  qed
qed

lemma applyOptions_events:
  "applyOptions fs e w = (r, e', w') \<Longrightarrow>
     \<exists>k\<le>length fs. events w' = events w @ replicate k OptionApplied \<and> (r = None \<longrightarrow> k = length fs)"
proof (induction fs arbitrary: e w)
  case Nil
  then show ?case by simp
next
  case (Cons f fs)
  obtain err e1 m1 where fv: "f e (memoryOf w) = (err, e1, m1)"
    by (cases "f e (memoryOf w)")
  define w1 where "w1 = record_event OptionApplied (withMemory m1 w)"
  have ev1: "events w1 = events w @ [OptionApplied]"
    by (simp add: w1_def record_event_def withMemory_def)
  show ?case
  proof (cases err)
    case None
    with Cons.prems fv have "applyOptions fs e1 w1 = (r, e', w')"
      by (simp add: w1_def)
    from Cons.IH[OF this] obtain k where
      k: "k \<le> length fs" "events w' = events w1 @ replicate k OptionApplied" "r = None \<longrightarrow> k = length fs"
      by blast
    then have "events w' = events w @ replicate (Suc k) OptionApplied"
      by (simp add: ev1 replicate_app_Cons_same)
    with k show ?thesis
      by (intro exI[of _ "Suc k"]) simp
  next
    case (Some x)
    with Cons.prems fv have "w' = w1" "r = Some x"
      by (simp_all add: w1_def)
    then show ?thesis
      by (intro exI[of _ "Suc 0"]) (simp add: ev1)
  qed
qed

lemma applyOptions_append:
  "applyOptions pre e w = (None, e1, w1) \<Longrightarrow> applyOptions (pre @ fs) e w = applyOptions fs e1 w1"
proof (induction pre arbitrary: e w)
  case Nil
  then show ?case by simp
next
  case (Cons f pre)
  then show ?case
    by (auto simp: Let_def split: prod.splits option.splits)
qed

text \<open>What option functions that only assign fields of their own options struct leave alone.\<close>
lemma applyOptions_own_fields:
  "\<forall>f\<in>set fs. assignsOwnFields f \<Longrightarrow> applyOptions fs e w = (r, e', w') \<Longrightarrow>
     opts e' = opts e \<and> nextOptions w' = nextOptions w \<and>
     (\<forall>a. a \<noteq> opts e \<longrightarrow> optionsHeap w' a = optionsHeap w a) \<and>
     nextSlice w \<le> nextSlice w' \<and>
     (\<forall>a<nextSlice w. sliceHeap w' a = sliceHeap w a)"
proof (induction fs arbitrary: e w)
  case Nil
  then show ?case by simp
next
  case (Cons f fs)
  obtain err e1 m1 where fv: "f e (memoryOf w) = (err, e1, m1)"
    by (cases "f e (memoryOf w)")
  define w1 where "w1 = record_event OptionApplied (withMemory m1 w)"
  have own: "assignsOwnFields f"
    using Cons.prems(1) by simp
  from own[unfolded assignsOwnFields_def, THEN spec, THEN spec, of e "memoryOf w"]
  have "opts e1 = opts e
        \<and> options_next m1 = options_next (memoryOf w)
        \<and> (\<forall>a. a \<noteq> opts e \<longrightarrow> options_of m1 a = options_of (memoryOf w) a)
        \<and> arrays_next (memoryOf w) \<le> arrays_next m1
        \<and> (\<forall>a<arrays_next (memoryOf w). arrays_of m1 a = arrays_of (memoryOf w) a)"
    by (simp add: fv)
  then have step: "opts e1 = opts e \<and> options_next m1 = nextOptions w
      \<and> (\<forall>a. a \<noteq> opts e \<longrightarrow> options_of m1 a = optionsHeap w a)
      \<and> nextSlice w \<le> arrays_next m1
      \<and> (\<forall>a<nextSlice w. arrays_of m1 a = sliceHeap w a)"
    by (simp add: memoryOf_def)
  have one: "opts e1 = opts e \<and> nextOptions w1 = nextOptions w \<and>
     (\<forall>a. a \<noteq> opts e \<longrightarrow> optionsHeap w1 a = optionsHeap w a) \<and>
     nextSlice w \<le> nextSlice w1 \<and>
     (\<forall>a<nextSlice w. sliceHeap w1 a = sliceHeap w a)"
    using step by (simp add: w1_def record_event_def withMemory_def)
  show ?case
  proof (cases err)
    case None
    with Cons.prems(2) fv have rest: "applyOptions fs e1 w1 = (r, e', w')"
      by (simp add: w1_def)
    have "\<forall>f\<in>set fs. assignsOwnFields f"
      using Cons.prems(1) by simp
    from Cons.IH[OF this rest] one show ?thesis
      by auto
  next
    case (Some x)
    with Cons.prems(2) fv have "w' = w1" "e' = e1"
      by (simp_all add: w1_def)
    then show ?thesis
      using one by simp
  qed
qed

lemma createEphemeralObjects_frame:
  assumes "createEphemeralObjects base options w = ((u, err), w')"
  shows "optionsHeap w' = optionsHeap w" and "nextOptions w' = nextOptions w"
    and "events w' = events w" and "nextEngine w' = Suc (nextEngine w)"
    and "nextLimiter w' = Suc (nextLimiter w)" and "err = None"
    and "\<forall>a. a \<noteq> nextEngine w \<longrightarrow> engineHeap w' a = engineHeap w a"
    and "\<forall>a. a \<noteq> nextLimiter w \<longrightarrow> limiterHeap w' a = limiterHeap w a"
    and "RateLimiter (executerOpts u) = Some (nextLimiter w)"
    and "sliceHeap w' = sliceHeap w" and "nextSlice w' = nextSlice w"
    and "Options (executerOpts u) = options"
    and "engineOptions (engineHeap w' (nextEngine w)) = options"
  using assms
  by (auto simp: createEphemeralObjects_def Let_def ratelimit_New_def ratelimit_NewUnlimited_def
        core_New_def SetExecuterOptions_def split: if_splits prod.splits)

lemma createEphemeralObjects_limiter:
  assumes "createEphemeralObjects base options w = ((u, err), w')"
  shows "limiterHeap w' (nextLimiter w) =
           (if 0 < RateLimitMinute (optionsHeap w options)
            then Limiter (nat (RateLimitMinute (optionsHeap w options))) Minute
            else if 0 < RateLimit (optionsHeap w options)
            then Limiter (nat (RateLimit (optionsHeap w options))) Second
            else Unlimited)"
  using assms
  by (auto simp: createEphemeralObjects_def Let_def ratelimit_New_def ratelimit_NewUnlimited_def
        core_New_def SetExecuterOptions_def split: if_splits prod.splits)

lemma loadTemplates_cases:
  assumes ceo: "createEphemeralObjects (eng e) (opts tmp) w = ((u, err), w1)"
  obtains
    (workflow_loader_failed) x where
      "parsers_NewLoader env w1 (executerOpts u) = Inl x"
      "loadTemplates env e tmp w =
         (Inl (errorutil_New ''Could not create workflow loader: %s\<newline>'' x),
          record_event (ParsersNewLoader (executerOpts u)) w1)"
  | (loader_failed) l x where
      "parsers_NewLoader env w1 (executerOpts u) = Inr l"
      "loader_New env (record_event (ParsersNewLoader (executerOpts u)) w1)
         (NewConfig (opts tmp) (catalog (eng e)) ((executerOpts u)\<lparr>WorkflowLoader := Some l\<rparr>))
       = Inl x"
      "loadTemplates env e tmp w =
         (Inl (errorutil_New ''Could not create loader client: %s\<newline>'' x),
          record_event
            (LoaderNew (NewConfig (opts tmp) (catalog (eng e))
               ((executerOpts u)\<lparr>WorkflowLoader := Some l\<rparr>)))
            (record_event (ParsersNewLoader (executerOpts u)) w1))"
  | (loaded) l store0 where
      "parsers_NewLoader env w1 (executerOpts u) = Inr l"
      "loader_New env (record_event (ParsersNewLoader (executerOpts u)) w1)
         (NewConfig (opts tmp) (catalog (eng e)) ((executerOpts u)\<lparr>WorkflowLoader := Some l\<rparr>))
       = Inr store0"
      "loadTemplates env e tmp w =
         (Inr (u\<lparr>executerOpts := (executerOpts u)\<lparr>WorkflowLoader := Some l\<rparr>\<rparr>,
               Load env
                 (record_event
                    (LoaderNew (NewConfig (opts tmp) (catalog (eng e))
                       ((executerOpts u)\<lparr>WorkflowLoader := Some l\<rparr>)))
                    (record_event (ParsersNewLoader (executerOpts u)) w1))
                 store0),
          record_event StoreLoad
            (record_event
               (LoaderNew (NewConfig (opts tmp) (catalog (eng e))
                  ((executerOpts u)\<lparr>WorkflowLoader := Some l\<rparr>)))
               (record_event (ParsersNewLoader (executerOpts u)) w1)))"
proof -
  have none: "err = None"
    using createEphemeralObjects_frame(6)[OF ceo] .
  show thesis
  proof (cases "parsers_NewLoader env w1 (executerOpts u)")
    case (Inl x)
    then show thesis
      using ceo none workflow_loader_failed by (simp add: loadTemplates_def)
  next
    case (Inr l)
    show thesis
    proof (cases "loader_New env (record_event (ParsersNewLoader (executerOpts u)) w1)
                    (NewConfig (opts tmp) (catalog (eng e))
                       ((executerOpts u)\<lparr>WorkflowLoader := Some l\<rparr>))")
      case (Inl x)
      then show thesis
        using ceo none Inr loader_failed[of l x] by (simp add: loadTemplates_def Let_def)
    next
      case inr: (Inr store0)
      then show thesis
        using ceo none Inr loaded[of l store0] by (simp add: loadTemplates_def Let_def)
    qed
  qed
qed

lemma loadTemplates_frame:
  assumes lt: "loadTemplates env e tmp w = (r, w')"
  shows "optionsHeap w' = optionsHeap w" and "nextOptions w' = nextOptions w"
    and "nextEngine w' = Suc (nextEngine w)"
    and "\<forall>a. a \<noteq> nextEngine w \<longrightarrow> engineHeap w' a = engineHeap w a"
    and "\<exists>evs. events w' =
            events w @ ParsersNewLoader
              (executerOpts (fst (fst (createEphemeralObjects (eng e) (opts tmp) w)))) # evs
          \<and> set evs \<subseteq> range LoaderNew \<union> {StoreLoad}"
    and "sliceHeap w' = sliceHeap w" and "nextSlice w' = nextSlice w"
    and "limiterHeap w' = limiterHeap (snd (createEphemeralObjects (eng e) (opts tmp) w))"
    and "engineOptions (engineHeap w' (nextEngine w)) = opts tmp"
proof -
  obtain u err w1 where ceo: "createEphemeralObjects (eng e) (opts tmp) w = ((u, err), w1)"
    by (metis prod.collapse)
  note fr = createEphemeralObjects_frame[OF ceo]
  have "optionsHeap w' = optionsHeap w \<and> nextOptions w' = nextOptions w
      \<and> nextEngine w' = Suc (nextEngine w)
      \<and> (\<forall>a. a \<noteq> nextEngine w \<longrightarrow> engineHeap w' a = engineHeap w a)
      \<and> (\<exists>evs. events w' = events w @ ParsersNewLoader (executerOpts u) # evs
          \<and> set evs \<subseteq> range LoaderNew \<union> {StoreLoad})
      \<and> sliceHeap w' = sliceHeap w \<and> nextSlice w' = nextSlice w
      \<and> limiterHeap w' = limiterHeap w1
      \<and> engineOptions (engineHeap w' (nextEngine w)) = opts tmp"
  proof (rule loadTemplates_cases[OF ceo, of env], goal_cases)
    case (1 x)
    with lt have "w' = record_event (ParsersNewLoader (executerOpts u)) w1" by simp
    then show ?thesis using fr by (simp add: record_event_def)
  next
    case (2 l x)
    with lt have "w' = record_event
            (LoaderNew (NewConfig (opts tmp) (catalog (eng e))
               ((executerOpts u)\<lparr>WorkflowLoader := Some l\<rparr>)))
            (record_event (ParsersNewLoader (executerOpts u)) w1)" by simp
    then show ?thesis using fr by (simp add: record_event_def)
  next
    case (3 l store0)
    with lt have "w' = record_event StoreLoad
            (record_event
               (LoaderNew (NewConfig (opts tmp) (catalog (eng e))
                  ((executerOpts u)\<lparr>WorkflowLoader := Some l\<rparr>)))
               (record_event (ParsersNewLoader (executerOpts u)) w1))" by simp
    then show ?thesis using fr by (simp add: record_event_def)
  qed
  then show "optionsHeap w' = optionsHeap w" and "nextOptions w' = nextOptions w"
    and "nextEngine w' = Suc (nextEngine w)"
    and "\<forall>a. a \<noteq> nextEngine w \<longrightarrow> engineHeap w' a = engineHeap w a"
    and "\<exists>evs. events w' =
            events w @ ParsersNewLoader
              (executerOpts (fst (fst (createEphemeralObjects (eng e) (opts tmp) w)))) # evs
          \<and> set evs \<subseteq> range LoaderNew \<union> {StoreLoad}"
    and "sliceHeap w' = sliceHeap w" and "nextSlice w' = nextSlice w"
    and "limiterHeap w' = limiterHeap (snd (createEphemeralObjects (eng e) (opts tmp) w))"
    and "engineOptions (engineHeap w' (nextEngine w)) = opts tmp"
    using ceo by simp_all
qed

lemma loadTargets_Inputs: "Inputs (loadTargets targets) = map MetaInput targets"
proof -
  have "Inputs (fold inputProvider_Set ts p) = Inputs p @ map MetaInput ts" for ts p
    by (induction ts arbitrary: p) (simp_all add: inputProvider_Set_def)
  then show ?thesis by (simp add: loadTargets_def)
qed

lemma ExecuteNucleiWithOpts_option_error:
  assumes "cloneBaseOptions e w = (tmp, w0)"
      and "applyOptions fs tmp w0 = (Some err, tmp1, w1)"
  shows "ExecuteNucleiWithOpts env e targets fs w = (Some err, w1)"
  using assms by (simp add: ExecuteNucleiWithOpts_def)

lemma ExecuteNucleiWithOpts_loader_error:
  assumes "cloneBaseOptions e w = (tmp, w0)"
      and "applyOptions fs tmp w0 = (None, tmp1, w1)"
      and "loadTemplates env e tmp1 w1 = (Inl err, w2)"
  shows "ExecuteNucleiWithOpts env e targets fs w = (Some err, w2)"
  using assms by (simp add: ExecuteNucleiWithOpts_def)

lemma ExecuteNucleiWithOpts_loaded:
  assumes "cloneBaseOptions e w = (tmp, w0)"
      and "applyOptions fs tmp w0 = (None, tmp1, w1)"
      and "loadTemplates env e tmp1 w1 = (Inr (u, store), w2)"
  shows "ExecuteNucleiWithOpts env e targets fs w =
           (if Templates store = [] \<and> Workflows store = [] then (Some ErrNoTemplatesAvailable, w2)
            else if targets = [] then (Some ErrNoTargetsAvailable, w2)
            else (None, scanWorld tmp1 u store targets w2))"
  using assms
  by (simp add: ExecuteNucleiWithOpts_def Let_def inputProvider_Count_def loadTargets_Inputs
        scanWorld_def core_New_def)

lemma applyOptions_events_ok:
  assumes "applyOptions fs e w = (None, e', w')"
  shows "events w' = events w @ replicate (length fs) OptionApplied"
  using applyOptions_events[OF assms] by auto

lemma cloneBaseOptions_frame:
  assumes "cloneBaseOptions e w = (tmp, w0)"
  shows "opts tmp = nextOptions w" and "nextOptions w0 = Suc (nextOptions w)"
    and "optionsHeap w0 = (optionsHeap w)(nextOptions w := optionsHeap w (opts (eng e)))"
    and "events w0 = events w" and "nextEngine w0 = nextEngine w"
    and "engineHeap w0 = engineHeap w"
    and "sliceHeap w0 = sliceHeap w" and "nextSlice w0 = nextSlice w"
    and "limiterHeap w0 = limiterHeap w" and "nextLimiter w0 = nextLimiter w"
  using assms by (auto simp: cloneBaseOptions_def newOptions_def)

lemma defaultEngine_frame:
  assumes "defaultEngine env w = (e, w0)"
  shows "opts e = nextOptions w" and "events w0 = events w"
  using assms by (auto simp: defaultEngine_def newOptions_def)

text \<open>The example collaborators always resolve the templates and workflows they were given.\<close>
lemma example_env_loads:
  "\<exists>u w2. loadTemplates (example_env ts ws) e tmp w
            = (Inr (u, \<lparr>Templates = ts, Workflows = ws\<rparr>), w2)"
proof -
  obtain u err w1 where ceo: "createEphemeralObjects (eng e) (opts tmp) w = ((u, err), w1)"
    by (metis prod.collapse)
  show ?thesis
  proof (rule loadTemplates_cases[OF ceo, of "example_env ts ws"], goal_cases)
    case (1 x)
    then show ?case by (simp add: example_env_def)
  next
    case (2 l x)
    then show ?case by (simp add: example_env_def)
  next
    case (3 l store0)
    then show ?case by (simp add: example_env_def)
  qed
qed

text \<open>The example option functions that assign a quota touch only their own options struct.\<close>
lemma example_options_assign_own_fields:
  "assignsOwnFields (with_RateLimit n)" and "assignsOwnFields (with_RateLimitMinute n)"
  and "assignsOwnFields failing_option"
  by (simp_all add: assignsOwnFields_def with_RateLimit_def with_RateLimitMinute_def
        failing_option_def assignField_def)

lemma scanWorld_frame:
  shows "events (scanWorld tmp u store targets w2) =
           events w2 @ [ExecuteScanWithOpts (nextEngine w2) (Templates store) (map MetaInput targets) False,
                        WorkPoolWait (nextEngine w2)]"
    and "optionsHeap (scanWorld tmp u store targets w2) = optionsHeap w2"
    and "nextOptions (scanWorld tmp u store targets w2) = nextOptions w2"
    and "nextEngine (scanWorld tmp u store targets w2) = Suc (nextEngine w2)"
    and "engineHeap (scanWorld tmp u store targets w2) (nextEngine w2) =
           \<lparr>engineOptions = opts tmp, engineExecuterOptions = Some (executerOpts u)\<rparr>"
    and "\<forall>a. a \<noteq> nextEngine w2 \<longrightarrow> engineHeap (scanWorld tmp u store targets w2) a = engineHeap w2 a"
    and "sliceHeap (scanWorld tmp u store targets w2) = sliceHeap w2"
    and "nextSlice (scanWorld tmp u store targets w2) = nextSlice w2"
    and "limiterHeap (scanWorld tmp u store targets w2) = limiterHeap w2"
  by (simp_all add: scanWorld_def record_event_def SetExecuterOptions_def core_New_def)

lemma ExecuteNucleiWithOpts_world:
  assumes c: "cloneBaseOptions e w = (tmp, w0)"
      and x: "ExecuteNucleiWithOpts env e targets options w = (r, w')"
  obtains
    (option_failed) err tmp1 where "applyOptions options tmp w0 = (Some err, tmp1, w')"
  | (load_failed) tmp1 w1 err where "applyOptions options tmp w0 = (None, tmp1, w1)"
      "loadTemplates env e tmp1 w1 = (Inl err, w')"
  | (invalid) tmp1 w1 u store where "applyOptions options tmp w0 = (None, tmp1, w1)"
      "loadTemplates env e tmp1 w1 = (Inr (u, store), w')" "r \<noteq> None"
  | (scanned) tmp1 w1 u store w2 where "applyOptions options tmp w0 = (None, tmp1, w1)"
      "loadTemplates env e tmp1 w1 = (Inr (u, store), w2)"
      "w' = scanWorld tmp1 u store targets w2" "r = None"
proof -
  obtain r1 tmp1 w1 where a: "applyOptions options tmp w0 = (r1, tmp1, w1)"
    by (metis prod.collapse)
  show thesis
  proof (cases r1)
    case (Some err)
    then show thesis
      using ExecuteNucleiWithOpts_option_error[OF c, of options err tmp1 w1 env targets] a x
        option_failed by simp
  next
    case None
    obtain rl w2 where l: "loadTemplates env e tmp1 w1 = (rl, w2)"
      by (metis prod.collapse)
    show thesis
    proof (cases rl)
      case (Inl err)
      then show thesis
        using ExecuteNucleiWithOpts_loader_error[OF c, of options tmp1 w1 env err w2 targets]
          a None l x load_failed by simp
    next
      case (Inr p)
      obtain u store where p: "p = (u, store)"
        by (cases p)
      have l': "loadTemplates env e tmp1 w1 = (Inr (u, store), w2)"
        using l Inr p by simp
      have a': "applyOptions options tmp w0 = (None, tmp1, w1)"
        using a None by simp
      note unfold = ExecuteNucleiWithOpts_loaded[OF c a' l', of targets]
      show thesis
      proof (cases "r = None")
        case True
        then have "w' = scanWorld tmp1 u store targets w2"
          using x unfolding unfold by (auto split: if_splits)
        then show thesis
          using scanned[OF a' l'] True by simp
      next
        case False
        then have "w' = w2"
          using x unfolding unfold by (auto split: if_splits)
        then show thesis
          using invalid[OF a'] l' False by simp
      qed
    qed
  qed
qed

text \<open>After the option functions have run, the call changes no options struct and no array.\<close>
lemma ExecuteNucleiWithOpts_memory:
  assumes c: "cloneBaseOptions e w = (tmp, w0)"
      and a: "applyOptions options tmp w0 = (r1, tmp1, w1)"
      and x: "ExecuteNucleiWithOpts env e targets options w = (r, w')"
  shows "optionsHeap w' = optionsHeap w1" and "nextOptions w' = nextOptions w1"
    and "sliceHeap w' = sliceHeap w1" and "nextSlice w' = nextSlice w1"
proof -
  have "optionsHeap w' = optionsHeap w1 \<and> nextOptions w' = nextOptions w1
      \<and> sliceHeap w' = sliceHeap w1 \<and> nextSlice w' = nextSlice w1"
  proof (rule ExecuteNucleiWithOpts_world[OF c x], goal_cases)
    case (1 err t1)
    then show ?case using a by simp
  next
    case (2 t1 v1 err)
    then have "t1 = tmp1" "v1 = w1" using a by simp_all
    then show ?case
      using loadTemplates_frame(1,2,6,7)[OF 2(2)] by simp
  next
    case (3 t1 v1 u store)
    then have "t1 = tmp1" "v1 = w1" using a by simp_all
    then show ?case
      using loadTemplates_frame(1,2,6,7)[OF 3(2)] by simp
  next
    case (4 t1 v1 u store w2)
    then have "t1 = tmp1" "v1 = w1" using a by simp_all
    then show ?case
      using loadTemplates_frame(1,2,6,7)[OF 4(2)] by (simp add: 4(3) scanWorld_frame)
  qed
  then show "optionsHeap w' = optionsHeap w1" and "nextOptions w' = nextOptions w1"
    and "sliceHeap w' = sliceHeap w1" and "nextSlice w' = nextSlice w1"
    by simp_all
qed

subsection \<open>Isolation of the per-invocation options\<close>

text \<open>
  C1, as stated: mutating an invocation's options through its option functions never
  changes the shared base options. The copy of line 98 is a copy of the struct: the tags
  of the copy point to the backing array of the base's tags. An option function that
  overwrites the first tag of the options it is given changes what the shared base's tags
  read, from \<open>cve\<close> to \<open>rce\<close>.
\<close>
theorem shared_tags_counterexample:
  "readTags (opts (eng example_facade)) example_world = [''cve'']
   \<and> readTags (opts (eng example_facade))
        (snd (ExecuteNucleiWithOpts (example_env [Template ''t1''] []) example_facade
                [''example.com''] [overwrite_first_tag ''rce''] example_world))
       = [''rce'']"
proof -
  obtain tmp w0 where c: "cloneBaseOptions example_facade example_world = (tmp, w0)"
    by (metis prod.collapse)
  obtain r1 tmp1 w1 where a: "applyOptions [overwrite_first_tag ''rce''] tmp w0 = (r1, tmp1, w1)"
    by (metis prod.collapse)
  obtain r w' where x: "ExecuteNucleiWithOpts (example_env [Template ''t1''] []) example_facade
                [''example.com''] [overwrite_first_tag ''rce''] example_world = (r, w')"
    by (metis prod.collapse)
  note mem = ExecuteNucleiWithOpts_memory[OF c a x]
  have w1: "w1 = snd (snd (applyOptions [overwrite_first_tag ''rce'']
                 (fst (cloneBaseOptions example_facade example_world))
                 (snd (cloneBaseOptions example_facade example_world))))"
    by (simp only: c a fst_conv snd_conv)
  have base: "optionsHeap w1 0 =
      \<lparr>RateLimit = 150, RateLimitMinute = 0, Tags = \<lparr>sliceArray = 0, sliceLen = 1\<rparr>\<rparr>"
    unfolding w1
    by (simp add: cloneBaseOptions_def newOptions_def example_world_def example_facade_def
        overwrite_first_tag_def memoryOf_def withMemory_def record_event_def)
  have arr: "sliceHeap w1 0 = [''rce'']"
    unfolding w1
    by (simp add: cloneBaseOptions_def newOptions_def example_world_def example_facade_def
        overwrite_first_tag_def memoryOf_def withMemory_def record_event_def)
  have before: "readTags (opts (eng example_facade)) example_world = [''cve'']"
    by (simp add: readTags_def example_world_def example_facade_def)
  have after: "readTags (opts (eng example_facade)) w' = [''rce'']"
    by (simp add: readTags_def mem base arr example_facade_def)
  show ?thesis
    using before after by (simp add: x)
qed

text \<open>
  C1, amended: a call copies the shared base options struct into a struct of its own
  before any option function runs (a copy of the struct: its address differs from the
  base's and its fields are the base's, slices still pointing to the base's arrays). When
  every option function only assigns fields of the options struct of the engine it is
  given, every options struct and every array that existed when the call began (the
  shared base, the struct of any other invocation) keeps its contents, after every prefix
  of the option functions and at the end of the call; and when the option functions
  succeed, the call works with its own struct: it hands the copy's address to the
  ephemeral objects, whose limiter is selected from the copy's quotas, and leaves the
  copy as the option functions left it.
\<close>
theorem invocation_options_isolated:
  assumes "opts (eng e) < nextOptions w"
      and "\<forall>f\<in>set options. assignsOwnFields f"
      and "ExecuteNucleiWithOpts env e targets options w = (r, w')"
  shows "opts (fst (cloneBaseOptions e w)) = nextOptions w
       \<and> opts (fst (cloneBaseOptions e w)) \<noteq> opts (eng e)
       \<and> optionsHeap (snd (cloneBaseOptions e w)) (nextOptions w) = optionsHeap w (opts (eng e))
       \<and> (\<forall>k. \<forall>a<nextOptions w.
             optionsHeap (snd (snd (applyOptions (take k options) (fst (cloneBaseOptions e w))
                                      (snd (cloneBaseOptions e w))))) a
               = optionsHeap w a)
       \<and> (\<forall>k. \<forall>a<nextSlice w.
             sliceHeap (snd (snd (applyOptions (take k options) (fst (cloneBaseOptions e w))
                                    (snd (cloneBaseOptions e w))))) a
               = sliceHeap w a)
       \<and> (\<forall>a<nextOptions w. optionsHeap w' a = optionsHeap w a)
       \<and> (\<forall>a<nextSlice w. sliceHeap w' a = sliceHeap w a)
       \<and> optionsHeap w' (opts (eng e)) = optionsHeap w (opts (eng e))
       \<and> (\<forall>tmp1 w1.
             applyOptions options (fst (cloneBaseOptions e w)) (snd (cloneBaseOptions e w))
               = (None, tmp1, w1)
             \<longrightarrow> opts tmp1 = nextOptions w
               \<and> optionsHeap w' (nextOptions w) = optionsHeap w1 (nextOptions w)
               \<and> ParsersNewLoader
                    (executerOpts (fst (fst (createEphemeralObjects (eng e) (nextOptions w) w1))))
                   \<in> set (drop (length (events w)) (events w'))
               \<and> Options (executerOpts (fst (fst (createEphemeralObjects (eng e)
                                                     (nextOptions w) w1))))
                   = nextOptions w
               \<and> RateLimiter (executerOpts (fst (fst (createEphemeralObjects (eng e)
                                                         (nextOptions w) w1))))
                   = Some (nextLimiter w)
               \<and> limiterHeap w' (nextLimiter w)
                   = (if 0 < RateLimitMinute (optionsHeap w' (nextOptions w))
                      then Limiter (nat (RateLimitMinute (optionsHeap w' (nextOptions w)))) Minute
                      else if 0 < RateLimit (optionsHeap w' (nextOptions w))
                      then Limiter (nat (RateLimit (optionsHeap w' (nextOptions w)))) Second
                      else Unlimited)
               \<and> engineOptions (engineHeap w' (nextEngine w)) = nextOptions w)"
proof -
  obtain tmp w0 where c: "cloneBaseOptions e w = (tmp, w0)"
    by (metis prod.collapse)
  note cf = cloneBaseOptions_frame[OF c]
  have addr: "opts (fst (cloneBaseOptions e w)) = nextOptions w"
    by (simp add: c cf(1))
  have fresh: "opts (fst (cloneBaseOptions e w)) \<noteq> opts (eng e)"
    using assms(1) by (simp add: c cf(1))
  have copy: "optionsHeap (snd (cloneBaseOptions e w)) (nextOptions w)
           = optionsHeap w (opts (eng e))"
    by (simp add: c cf(3))
  have pre: "(\<forall>a<nextOptions w. optionsHeap wk a = optionsHeap w a)
      \<and> (\<forall>a<nextSlice w. sliceHeap wk a = sliceHeap w a)
      \<and> opts tk = nextOptions w"
    if k: "applyOptions fs tmp w0 = (rk, tk, wk)" and sub: "set fs \<subseteq> set options" for fs rk tk wk
  proof -
    have "\<forall>f\<in>set fs. assignsOwnFields f"
      using assms(2) sub by blast
    from applyOptions_own_fields[OF this k] show ?thesis
      by (simp add: cf)
  qed
  have prefix_options: "\<forall>k. \<forall>a<nextOptions w.
             optionsHeap (snd (snd (applyOptions (take k options) (fst (cloneBaseOptions e w))
                                      (snd (cloneBaseOptions e w))))) a
               = optionsHeap w a"
  proof (intro allI impI)
    fix k a
    assume a: "a < nextOptions w"
    obtain rk tk wk where k: "applyOptions (take k options) tmp w0 = (rk, tk, wk)"
      by (metis prod.collapse)
    have "set (take k options) \<subseteq> set options"
      by (rule set_take_subset)
    from pre[OF k this] a show "optionsHeap (snd (snd (applyOptions (take k options)
        (fst (cloneBaseOptions e w)) (snd (cloneBaseOptions e w))))) a = optionsHeap w a"
      by (simp add: c k)
  qed
  have prefix_arrays: "\<forall>k. \<forall>a<nextSlice w.
             sliceHeap (snd (snd (applyOptions (take k options) (fst (cloneBaseOptions e w))
                                    (snd (cloneBaseOptions e w))))) a
               = sliceHeap w a"
  proof (intro allI impI)
    fix k a
    assume a: "a < nextSlice w"
    obtain rk tk wk where k: "applyOptions (take k options) tmp w0 = (rk, tk, wk)"
      by (metis prod.collapse)
    have "set (take k options) \<subseteq> set options"
      by (rule set_take_subset)
    from pre[OF k this] a show "sliceHeap (snd (snd (applyOptions (take k options)
        (fst (cloneBaseOptions e w)) (snd (cloneBaseOptions e w))))) a = sliceHeap w a"
      by (simp add: c k)
  qed
  obtain r1 tmp1 w1 where a: "applyOptions options tmp w0 = (r1, tmp1, w1)"
    by (metis prod.collapse)
  note mem = ExecuteNucleiWithOpts_memory[OF c a assms(3)]
  note all = pre[OF a subset_refl]
  have old_options: "\<forall>a<nextOptions w. optionsHeap w' a = optionsHeap w a"
    using all by (simp add: mem)
  have old_arrays: "\<forall>a<nextSlice w. sliceHeap w' a = sliceHeap w a"
    using all by (simp add: mem)
  have base: "optionsHeap w' (opts (eng e)) = optionsHeap w (opts (eng e))"
    using old_options assms(1) by simp
  have own: "opts t1 = nextOptions w
               \<and> optionsHeap w' (nextOptions w) = optionsHeap v1 (nextOptions w)
               \<and> ParsersNewLoader
                    (executerOpts (fst (fst (createEphemeralObjects (eng e) (nextOptions w) v1))))
                   \<in> set (drop (length (events w)) (events w'))
               \<and> Options (executerOpts (fst (fst (createEphemeralObjects (eng e)
                                                     (nextOptions w) v1))))
                   = nextOptions w
               \<and> RateLimiter (executerOpts (fst (fst (createEphemeralObjects (eng e)
                                                         (nextOptions w) v1))))
                   = Some (nextLimiter w)
               \<and> limiterHeap w' (nextLimiter w)
                   = (if 0 < RateLimitMinute (optionsHeap w' (nextOptions w))
                      then Limiter (nat (RateLimitMinute (optionsHeap w' (nextOptions w)))) Minute
                      else if 0 < RateLimit (optionsHeap w' (nextOptions w))
                      then Limiter (nat (RateLimit (optionsHeap w' (nextOptions w)))) Second
                      else Unlimited)
               \<and> engineOptions (engineHeap w' (nextEngine w)) = nextOptions w"
    if ok: "applyOptions options (fst (cloneBaseOptions e w)) (snd (cloneBaseOptions e w))
               = (None, t1, v1)" for t1 v1
  proof -
    have eqs: "r1 = None" "tmp1 = t1" "w1 = v1"
      using ok a by (simp_all add: c)
    have a': "applyOptions options tmp w0 = (None, tmp1, w1)"
      using a eqs by simp
    have p: "opts tmp1 = nextOptions w"
      using all by simp
    obtain u err wc where ceo: "createEphemeralObjects (eng e) (nextOptions w) w1 = ((u, err), wc)"
      by (metis prod.collapse)
    note cfr = createEphemeralObjects_frame[OF ceo]
    note afr = applyOptions_frame[OF a]
    have nl: "nextLimiter w1 = nextLimiter w" and ne: "nextEngine w1 = nextEngine w"
      using afr cf by simp_all
    have ev1: "events w1 = events w @ replicate (length options) OptionApplied"
      using applyOptions_events_ok[OF a'] cf(4) by simp
    obtain rl w2 where l: "loadTemplates env e tmp1 w1 = (rl, w2)"
      by (metis prod.collapse)
    note lfr = loadTemplates_frame[OF l]
    obtain evs where ev2: "events w2 = events w1 @ ParsersNewLoader (executerOpts u) # evs"
      using lfr(5) by (auto simp: p ceo)
    have lim2: "limiterHeap w2 (nextLimiter w) =
        (if 0 < RateLimitMinute (optionsHeap w1 (nextOptions w))
         then Limiter (nat (RateLimitMinute (optionsHeap w1 (nextOptions w)))) Minute
         else if 0 < RateLimit (optionsHeap w1 (nextOptions w))
         then Limiter (nat (RateLimit (optionsHeap w1 (nextOptions w)))) Second
         else Unlimited)"
      using createEphemeralObjects_limiter[OF ceo] by (simp add: lfr(8) p ceo nl)
    have eng2: "engineOptions (engineHeap w2 (nextEngine w)) = nextOptions w"
      using lfr(9) by (simp add: p ne)
    have ne2: "nextEngine w2 = Suc (nextEngine w)"
      using lfr(3) by (simp add: ne)
    have final: "ParsersNewLoader (executerOpts u) \<in> set (drop (length (events w)) (events w'))
        \<and> limiterHeap w' (nextLimiter w) = limiterHeap w2 (nextLimiter w)
        \<and> engineOptions (engineHeap w' (nextEngine w)) = nextOptions w"
    proof (rule ExecuteNucleiWithOpts_world[OF c assms(3)], goal_cases)
      case (1 err t)
      then show ?case using a' by simp
    next
      case (2 t v err)
      then have "w' = w2" using a' l by simp
      then show ?case using eng2 by (simp add: ev2 ev1)
    next
      case (3 t v u' store)
      then have "w' = w2" using a' l by simp
      then show ?case using eng2 by (simp add: ev2 ev1)
    next
      case (4 t v u' store v2)
      then have "v2 = w2" and w': "w' = scanWorld tmp1 u' store targets w2"
        using a' l by simp_all
      have "engineHeap w' (nextEngine w) = engineHeap w2 (nextEngine w)"
        unfolding w' using scanWorld_frame(6)[of w2 tmp1 u' store targets] ne2 by simp
      then show ?case
        using eng2 by (simp add: w' scanWorld_frame(1,9) ev2 ev1)
    qed
    show ?thesis
      using final lim2 p cfr(9,12) by (simp add: mem eqs[symmetric] ceo nl)
  qed
  show ?thesis
    using addr fresh copy prefix_options prefix_arrays old_options old_arrays base own
    by blast
qed

theorem invocation_options_isolated_witness:
  "opts (eng example_facade) < nextOptions example_world
   \<and> assignsOwnFields (with_RateLimit 10)
   \<and> RateLimit (optionsHeap example_world (opts (eng example_facade))) = 150
   \<and> RateLimit (optionsHeap
        (snd (ExecuteNucleiWithOpts (example_env [Template ''t1''] []) example_facade
                [''example.com''] [with_RateLimit 10] example_world))
        (opts (eng example_facade))) = 150
   \<and> RateLimit (optionsHeap
        (snd (ExecuteNucleiWithOpts (example_env [Template ''t1''] []) example_facade
                [''example.com''] [with_RateLimit 10] example_world))
        (nextOptions example_world)) = 10
   \<and> limiterHeap
        (snd (ExecuteNucleiWithOpts (example_env [Template ''t1''] []) example_facade
                [''example.com''] [with_RateLimit 10] example_world))
        (nextLimiter example_world) = Limiter 10 Second"
proof -
  have v: "opts (eng example_facade) < nextOptions example_world"
    by (simp add: example_facade_def example_world_def)
  have o: "\<forall>f\<in>set [with_RateLimit 10]. assignsOwnFields f"
    by (simp add: example_options_assign_own_fields)
  obtain r w' where x: "ExecuteNucleiWithOpts (example_env [Template ''t1''] []) example_facade
        [''example.com''] [with_RateLimit 10] example_world = (r, w')"
    by (metis prod.collapse)
  obtain tmp1 w1 where a: "applyOptions [with_RateLimit 10]
        (fst (cloneBaseOptions example_facade example_world))
        (snd (cloneBaseOptions example_facade example_world)) = (None, tmp1, w1)"
    by (simp add: with_RateLimit_def)
  have cell: "optionsHeap w1 (nextOptions example_world) =
      \<lparr>RateLimit = 10, RateLimitMinute = 0, Tags = \<lparr>sliceArray = 0, sliceLen = 1\<rparr>\<rparr>"
  proof -
    have "w1 = snd (snd (applyOptions [with_RateLimit 10]
        (fst (cloneBaseOptions example_facade example_world))
        (snd (cloneBaseOptions example_facade example_world))))"
      by (simp only: a snd_conv)
    then show ?thesis
      by (simp add: cloneBaseOptions_def newOptions_def example_world_def example_facade_def
          with_RateLimit_def assignField_def memoryOf_def withMemory_def record_event_def)
  qed
  note iso = invocation_options_isolated[OF v o x]
  have base: "optionsHeap w' (opts (eng example_facade))
      = optionsHeap example_world (opts (eng example_facade))"
    using iso by blast
  have own: "optionsHeap w' (nextOptions example_world) = optionsHeap w1 (nextOptions example_world)
      \<and> limiterHeap w' (nextLimiter example_world)
          = (if 0 < RateLimitMinute (optionsHeap w' (nextOptions example_world))
             then Limiter (nat (RateLimitMinute (optionsHeap w' (nextOptions example_world)))) Minute
             else if 0 < RateLimit (optionsHeap w' (nextOptions example_world))
             then Limiter (nat (RateLimit (optionsHeap w' (nextOptions example_world)))) Second
             else Unlimited)"
    using iso a by blast
  have b150: "RateLimit (optionsHeap example_world (opts (eng example_facade))) = 150"
    by (simp add: example_world_def)
  show ?thesis
    using v own b150 by (simp add: x base cell example_options_assign_own_fields)
qed

subsection \<open>The rate limiter of the ephemeral objects\<close>

text \<open>
  C2: the limiter in the ephemeral execution options is allocated by the call itself (its
  address was not in use before, so it is not the shared engine's limiter, and no limiter
  that existed is modified), and its quota follows the precedence: a per-minute quota
  above zero gives a minute-windowed limiter with that quota; otherwise a per-second quota
  above zero gives a second-windowed limiter with that quota; otherwise the limiter is
  unlimited. The choice reads nothing but the invocation's options.
\<close>
theorem rate_limiter_fresh_and_selected:
  assumes "createEphemeralObjects base options w = ((u, err), w')"
  shows "RateLimiter (executerOpts u) = Some (nextLimiter w)
       \<and> nextLimiter w' = Suc (nextLimiter w)
       \<and> (\<forall>a<nextLimiter w. limiterHeap w' a = limiterHeap w a)
       \<and> (\<forall>b<nextLimiter w. rateLimiter base = Some b
            \<longrightarrow> RateLimiter (executerOpts u) \<noteq> rateLimiter base)
       \<and> (rateLimiter base = None \<longrightarrow> RateLimiter (executerOpts u) \<noteq> rateLimiter base)
       \<and> (0 < RateLimitMinute (optionsHeap w options)
            \<longrightarrow> limiterHeap w' (nextLimiter w)
                  = Limiter (nat (RateLimitMinute (optionsHeap w options))) Minute)
       \<and> (\<not> 0 < RateLimitMinute (optionsHeap w options) \<and> 0 < RateLimit (optionsHeap w options)
            \<longrightarrow> limiterHeap w' (nextLimiter w)
                  = Limiter (nat (RateLimit (optionsHeap w options))) Second)
       \<and> (\<not> 0 < RateLimitMinute (optionsHeap w options)
          \<and> \<not> 0 < RateLimit (optionsHeap w options)
            \<longrightarrow> limiterHeap w' (nextLimiter w) = Unlimited)"
proof -
  note fr = createEphemeralObjects_frame[OF assms]
  note sel = createEphemeralObjects_limiter[OF assms]
  have old: "\<forall>a<nextLimiter w. limiterHeap w' a = limiterHeap w a"
    using fr(8) by simp
  have shared: "\<forall>b<nextLimiter w. rateLimiter base = Some b
            \<longrightarrow> RateLimiter (executerOpts u) \<noteq> rateLimiter base"
    by (simp add: fr(9))
  have nil: "rateLimiter base = None \<longrightarrow> RateLimiter (executerOpts u) \<noteq> rateLimiter base"
    by (simp add: fr(9))
  show ?thesis
    using fr(9) fr(5) old shared nil sel by simp
qed

theorem rate_limiter_fresh_and_selected_witness:
  "RateLimiter (executerOpts (fst (fst (createEphemeralObjects (eng example_facade) 1
      (example_world\<lparr>optionsHeap := (optionsHeap example_world)
                          (1 := \<lparr>RateLimit = 150, RateLimitMinute = 30,
                                Tags = \<lparr>sliceArray = 0, sliceLen = 1\<rparr>\<rparr>),
                     nextOptions := 2\<rparr>))))) = Some 1
   \<and> rateLimiter (eng example_facade) = Some 0
   \<and> limiterHeap (snd (createEphemeralObjects (eng example_facade) 1
      (example_world\<lparr>optionsHeap := (optionsHeap example_world)
                          (1 := \<lparr>RateLimit = 150, RateLimitMinute = 30,
                                Tags = \<lparr>sliceArray = 0, sliceLen = 1\<rparr>\<rparr>),
                     nextOptions := 2\<rparr>))) 1 = Limiter 30 Minute
   \<and> limiterHeap (snd (createEphemeralObjects (eng example_facade) 1
      (example_world\<lparr>optionsHeap := (optionsHeap example_world)
                          (1 := \<lparr>RateLimit = 150, RateLimitMinute = 30,
                                Tags = \<lparr>sliceArray = 0, sliceLen = 1\<rparr>\<rparr>),
                     nextOptions := 2\<rparr>))) 0 = Limiter 150 Second"
proof -
  define w where "w = example_world\<lparr>optionsHeap := (optionsHeap example_world)
                          (1 := \<lparr>RateLimit = 150, RateLimitMinute = 30,
                                Tags = \<lparr>sliceArray = 0, sliceLen = 1\<rparr>\<rparr>),
                     nextOptions := 2\<rparr>"
  obtain u err w' where x: "createEphemeralObjects (eng example_facade) 1 w = ((u, err), w')"
    by (metis prod.collapse)
  have nl: "nextLimiter w = 1" and lim: "limiterHeap w 0 = Limiter 150 Second"
    and cell: "optionsHeap w (Suc 0) = \<lparr>RateLimit = 150, RateLimitMinute = 30,
                                Tags = \<lparr>sliceArray = 0, sliceLen = 1\<rparr>\<rparr>"
    by (simp_all add: w_def example_world_def)
  have base: "rateLimiter (eng example_facade) = Some 0"
    by (simp add: example_facade_def)
  have "RateLimiter (executerOpts u) = Some 1 \<and> limiterHeap w' 1 = Limiter 30 Minute
      \<and> limiterHeap w' 0 = Limiter 150 Second"
    using rate_limiter_fresh_and_selected[OF x] by (simp add: nl lim cell)
  then show ?thesis
    using base x[unfolded w_def] by simp
qed

subsection \<open>Validation of targets and templates\<close>

text \<open>
  C3, as stated: a call with an empty targets sequence returns \<^verbatim>\<open>ErrNoTargetsAvailable\<close>
  however many templates or workflows were resolved, zero included. The source checks the
  templates first (line 133) and the targets second (line 136): with no template, no
  workflow and no target the call returns \<^verbatim>\<open>ErrNoTemplatesAvailable\<close>.
\<close>
theorem no_targets_counterexample:
  "fst (ExecuteNucleiWithOpts (example_env [] []) example_facade [] [] example_world)
     = Some ErrNoTemplatesAvailable
   \<and> fst (ExecuteNucleiWithOpts (example_env [] []) example_facade [] [] example_world)
     \<noteq> Some ErrNoTargetsAvailable"
proof -
  obtain tmp w0 where c: "cloneBaseOptions example_facade example_world = (tmp, w0)"
    by (metis prod.collapse)
  have a: "applyOptions [] tmp w0 = (None, tmp, w0)"
    by simp
  obtain u w2 where l: "loadTemplates (example_env [] []) example_facade tmp w0
      = (Inr (u, \<lparr>Templates = [], Workflows = []\<rparr>), w2)"
    using example_env_loads by blast
  show ?thesis
    by (simp add: ExecuteNucleiWithOpts_loaded[OF c a l])
qed

text \<open>
  C3, amended: when the option functions succeed, the loaders are built and at least one
  template or workflow is resolved, a call with an empty targets sequence returns
  \<^verbatim>\<open>ErrNoTargetsAvailable\<close>, and the store is the one left by loading.
\<close>
theorem no_targets_after_templates:
  assumes "cloneBaseOptions e w = (tmp, w0)"
      and "applyOptions options tmp w0 = (None, tmp1, w1)"
      and "loadTemplates env e tmp1 w1 = (Inr (u, store), w2)"
      and "Templates store \<noteq> [] \<or> Workflows store \<noteq> []"
  shows "ExecuteNucleiWithOpts env e [] options w = (Some ErrNoTargetsAvailable, w2)"
  using assms(4) by (simp add: ExecuteNucleiWithOpts_loaded[OF assms(1-3)])

theorem no_targets_after_templates_witness:
  "fst (ExecuteNucleiWithOpts (example_env [] [Template ''workflow'']) example_facade []
          [with_RateLimit 10] example_world) = Some ErrNoTargetsAvailable"
proof -
  obtain tmp w0 where c: "cloneBaseOptions example_facade example_world = (tmp, w0)"
    by (metis prod.collapse)
  obtain tmp1 w1 where a: "applyOptions [with_RateLimit 10] tmp w0 = (None, tmp1, w1)"
    by (simp add: with_RateLimit_def)
  obtain u w2 where l:
    "loadTemplates (example_env [] [Template ''workflow'']) example_facade tmp1 w1
      = (Inr (u, \<lparr>Templates = [], Workflows = [Template ''workflow'']\<rparr>), w2)"
    using example_env_loads by blast
  show ?thesis
    using no_targets_after_templates[OF c a l] by simp
qed

text \<open>
  C4: for a call with a non-empty targets sequence whose option functions succeed and
  whose loaders are built, the result is \<^verbatim>\<open>ErrNoTemplatesAvailable\<close> exactly when the
  resolved templates and the resolved workflows are both empty; in particular, zero
  templates with at least one workflow is not this error.
\<close>
theorem no_templates_iff:
  assumes "targets \<noteq> []"
      and "cloneBaseOptions e w = (tmp, w0)"
      and "applyOptions options tmp w0 = (None, tmp1, w1)"
      and "loadTemplates env e tmp1 w1 = (Inr (u, store), w2)"
  shows "(fst (ExecuteNucleiWithOpts env e targets options w) = Some ErrNoTemplatesAvailable
            \<longleftrightarrow> Templates store = [] \<and> Workflows store = [])
       \<and> (Templates store = [] \<and> Workflows store \<noteq> []
            \<longrightarrow> fst (ExecuteNucleiWithOpts env e targets options w)
                  \<noteq> Some ErrNoTemplatesAvailable)"
  using assms(1) by (simp add: ExecuteNucleiWithOpts_loaded[OF assms(2-4)])

theorem no_templates_iff_witness:
  "fst (ExecuteNucleiWithOpts (example_env [] []) example_facade [''example.com'']
          [with_RateLimit 10] example_world) = Some ErrNoTemplatesAvailable
   \<and> fst (ExecuteNucleiWithOpts (example_env [] [Template ''workflow'']) example_facade
          [''example.com''] [with_RateLimit 10] example_world) \<noteq> Some ErrNoTemplatesAvailable"
proof -
  have ne: "[''example.com''] \<noteq> []" by simp
  obtain tmp w0 where c: "cloneBaseOptions example_facade example_world = (tmp, w0)"
    by (metis prod.collapse)
  obtain tmp1 w1 where a: "applyOptions [with_RateLimit 10] tmp w0 = (None, tmp1, w1)"
    by (simp add: with_RateLimit_def)
  obtain u w2 where l: "loadTemplates (example_env [] []) example_facade tmp1 w1
      = (Inr (u, \<lparr>Templates = [], Workflows = []\<rparr>), w2)"
    using example_env_loads by blast
  obtain u' w2' where l':
    "loadTemplates (example_env [] [Template ''workflow'']) example_facade tmp1 w1
      = (Inr (u', \<lparr>Templates = [], Workflows = [Template ''workflow'']\<rparr>), w2')"
    using example_env_loads by blast
  show ?thesis
    using no_templates_iff[OF ne c a l] no_templates_iff[OF ne c a l'] by simp
qed

subsection \<open>Errors of option functions\<close>

text \<open>
  C5: when the option functions before \<open>f\<close> succeed and \<open>f\<close> returns an error, both
  \<^verbatim>\<open>ExecuteNucleiWithOpts\<close> and \<^verbatim>\<open>NewThreadSafeNucleiEngine\<close> return that error, and the
  only calls made are those of the option functions up to and including \<open>f\<close>: no later
  option function, no loader construction, no template loading, no scan and no engine
  initialisation.
\<close>
theorem option_error_aborts:
  "(cloneBaseOptions e w = (tmp, w0) \<and> applyOptions pre tmp w0 = (None, tmp1, w1)
      \<and> fst (f tmp1 (memoryOf w1)) = Some err
     \<longrightarrow> fst (ExecuteNucleiWithOpts env e targets (pre @ f # post) w) = Some err
        \<and> events (snd (ExecuteNucleiWithOpts env e targets (pre @ f # post) w))
            = events w @ replicate (Suc (length pre)) OptionApplied)
   \<and> (defaultEngine env w = (e0, v0) \<and> applyOptions pre e0 v0 = (None, e1, v1)
      \<and> fst (f e1 (memoryOf v1)) = Some err
     \<longrightarrow> fst (NewThreadSafeNucleiEngine env (pre @ f # post) w) = Inl err
        \<and> events (snd (NewThreadSafeNucleiEngine env (pre @ f # post) w))
            = events w @ replicate (Suc (length pre)) OptionApplied)"
proof -
  have stop: "applyOptions (pre @ f # post) x s =
      (Some err, fst (snd (f x1 (memoryOf s1))),
       record_event OptionApplied (withMemory (snd (snd (f x1 (memoryOf s1)))) s1))"
    if "applyOptions pre x s = (None, x1, s1)" "fst (f x1 (memoryOf s1)) = Some err"
    for x s x1 s1
    using that(2)
    by (cases "f x1 (memoryOf s1)") (simp add: applyOptions_append[OF that(1)] Let_def)
  have evs: "events (record_event OptionApplied (withMemory m s1))
      = events s @ replicate (Suc (length pre)) OptionApplied"
    if "applyOptions pre x s = (None, x1, s1)" for x s x1 s1 m
    using applyOptions_events_ok[OF that]
    by (simp add: record_event_def withMemory_def replicate_append_same)
  have execute: "fst (ExecuteNucleiWithOpts env e targets (pre @ f # post) w) = Some err
        \<and> events (snd (ExecuteNucleiWithOpts env e targets (pre @ f # post) w))
            = events w @ replicate (Suc (length pre)) OptionApplied"
    if c: "cloneBaseOptions e w = (tmp, w0)" and a: "applyOptions pre tmp w0 = (None, tmp1, w1)"
      and b: "fst (f tmp1 (memoryOf w1)) = Some err"
    using ExecuteNucleiWithOpts_option_error[OF c stop[OF a b]] evs[OF a]
      cloneBaseOptions_frame(4)[OF c] by simp
  have construct: "fst (NewThreadSafeNucleiEngine env (pre @ f # post) w) = Inl err
        \<and> events (snd (NewThreadSafeNucleiEngine env (pre @ f # post) w))
            = events w @ replicate (Suc (length pre)) OptionApplied"
    if c: "defaultEngine env w = (e0, v0)" and a: "applyOptions pre e0 v0 = (None, e1, v1)"
      and b: "fst (f e1 (memoryOf v1)) = Some err"
    using evs[OF a] defaultEngine_frame(2)[OF c]
    by (simp add: NewThreadSafeNucleiEngine_def c stop[OF a b])
  show ?thesis
    using execute construct by blast
qed

theorem option_error_aborts_witness:
  "fst (ExecuteNucleiWithOpts (example_env [Template ''t1''] []) example_facade [''example.com'']
          [with_RateLimit 10, failing_option, with_RateLimitMinute 30] example_world)
     = Some (OtherError ''option not supported'')
   \<and> events (snd (ExecuteNucleiWithOpts (example_env [Template ''t1''] []) example_facade
          [''example.com''] [with_RateLimit 10, failing_option, with_RateLimitMinute 30]
          example_world)) = [OptionApplied, OptionApplied]
   \<and> fst (NewThreadSafeNucleiEngine (example_env [Template ''t1''] [])
          [with_RateLimit 10, failing_option, with_RateLimitMinute 30] example_world)
     = Inl (OtherError ''option not supported'')
   \<and> events (snd (NewThreadSafeNucleiEngine (example_env [Template ''t1''] [])
          [with_RateLimit 10, failing_option, with_RateLimitMinute 30] example_world))
     = [OptionApplied, OptionApplied]"
proof -
  obtain tmp w0 where c: "cloneBaseOptions example_facade example_world = (tmp, w0)"
    by (metis prod.collapse)
  obtain tmp1 w1 where a: "applyOptions [with_RateLimit 10] tmp w0 = (None, tmp1, w1)"
    by (simp add: with_RateLimit_def)
  have b: "fst (failing_option tmp1 (memoryOf w1)) = Some (OtherError ''option not supported'')"
    by (simp add: failing_option_def)
  obtain e0 v0 where c': "defaultEngine (example_env [Template ''t1''] []) example_world = (e0, v0)"
    by (metis prod.collapse)
  obtain e1 v1 where a': "applyOptions [with_RateLimit 10] e0 v0 = (None, e1, v1)"
    by (simp add: with_RateLimit_def)
  have b': "fst (failing_option e1 (memoryOf v1)) = Some (OtherError ''option not supported'')"
    by (simp add: failing_option_def)
  have ev: "events example_world = []"
    by (simp add: example_world_def)
  show ?thesis
    using option_error_aborts[of example_facade example_world tmp w0 "[with_RateLimit 10]" tmp1 w1
        failing_option "OtherError ''option not supported''" "example_env [Template ''t1''] []"
        "[''example.com'']" "[with_RateLimitMinute 30]" e0 v0 e1 v1] c a b c' a' b' ev
    by (simp add: numeral_2_eq_2)
qed

subsection \<open>Scanning\<close>

text \<open>
  C6: a call that passes every setup step (option functions, ephemeral objects, loaders,
  the template check and the target check) returns \<^verbatim>\<open>nil\<close>, whatever the executor's scan
  operation returns.
\<close>
theorem scan_error_not_propagated:
  assumes "cloneBaseOptions e w = (tmp, w0)"
      and "applyOptions options tmp w0 = (None, tmp1, w1)"
      and "loadTemplates env e tmp1 w1 = (Inr (u, store), w2)"
      and "\<not> (length (Templates store) = 0 \<and> length (Workflows store) = 0)"
      and "inputProvider_Count (loadTargets targets) \<noteq> 0"
  shows "fst (ExecuteNucleiWithOpts env e targets options w) = None"
  using assms(4,5)
  by (auto simp: ExecuteNucleiWithOpts_loaded[OF assms(1-3)] inputProvider_Count_def loadTargets_Inputs)

theorem scan_error_not_propagated_witness:
  "ExecuteScan (example_env [Template ''t1''] []) example_world 1 [Template ''t1'']
      [MetaInput ''example.com''] False = Some (OtherError ''scan failed'')
   \<and> fst (ExecuteNucleiWithOpts (example_env [Template ''t1''] []) example_facade
          [''example.com''] [with_RateLimit 10] example_world) = None"
proof -
  obtain tmp w0 where c: "cloneBaseOptions example_facade example_world = (tmp, w0)"
    by (metis prod.collapse)
  obtain tmp1 w1 where a: "applyOptions [with_RateLimit 10] tmp w0 = (None, tmp1, w1)"
    by (simp add: with_RateLimit_def)
  obtain u w2 where l: "loadTemplates (example_env [Template ''t1''] []) example_facade tmp1 w1
      = (Inr (u, \<lparr>Templates = [Template ''t1''], Workflows = []\<rparr>), w2)"
    using example_env_loads by blast
  have t: "\<not> (length (Templates \<lparr>Templates = [Template ''t1''], Workflows = []\<rparr>) = 0
            \<and> length (Workflows \<lparr>Templates = [Template ''t1''], Workflows = []\<rparr>) = 0)"
    by simp
  have n: "inputProvider_Count (loadTargets [''example.com'']) \<noteq> 0"
    by (simp add: inputProvider_Count_def loadTargets_Inputs)
  show ?thesis
    using scan_error_not_propagated[OF c a l t n] by (simp add: example_env_def)
qed

text \<open>
  C7: a call that starts the executor ends with the scan on the engine it created itself
  followed by the wait on that engine's work pool; the engine did not exist when the call
  began, it is bound to the invocation's options and execution options, and the call
  waits on no other work pool.
\<close>
theorem waits_on_own_work_pool:
  assumes "cloneBaseOptions e w = (tmp, w0)"
      and "applyOptions options tmp w0 = (None, tmp1, w1)"
      and "loadTemplates env e tmp1 w1 = (Inr (u, store), w2)"
      and "\<not> (length (Templates store) = 0 \<and> length (Workflows store) = 0)"
      and "inputProvider_Count (loadTargets targets) \<noteq> 0"
      and "ExecuteNucleiWithOpts env e targets options w = (r, w')"
  shows "events w' =
           events w2 @ [ExecuteScanWithOpts (nextEngine w2) (Templates store) (Inputs (loadTargets targets)) False,
                        WorkPoolWait (nextEngine w2)]
       \<and> nextEngine w \<le> nextEngine w2 \<and> nextEngine w2 < nextEngine w'
       \<and> engineHeap w' (nextEngine w2) =
           \<lparr>engineOptions = opts tmp1, engineExecuterOptions = Some (executerOpts u)\<rparr>
       \<and> (\<forall>x. WorkPoolWait x \<in> set (drop (length (events w)) (events w')) \<longrightarrow> x = nextEngine w2)"
proof -
  have w': "w' = scanWorld tmp1 u store targets w2"
    using assms(4,5,6)
    by (auto simp: ExecuteNucleiWithOpts_loaded[OF assms(1-3)] inputProvider_Count_def loadTargets_Inputs)
  note sw = scanWorld_frame[where ?w2.0 = w2 and tmp = tmp1 and u = u and store = store and targets = targets]
  have ev1: "events w1 = events w @ replicate (length options) OptionApplied"
    using applyOptions_events_ok[OF assms(2)] cloneBaseOptions_frame(4)[OF assms(1)] by simp
  obtain evs where ev2: "events w2 = events w1 @
      ParsersNewLoader (executerOpts (fst (fst (createEphemeralObjects (eng e) (opts tmp1) w1)))) # evs"
    and evs: "set evs \<subseteq> range LoaderNew \<union> {StoreLoad}"
    using loadTemplates_frame(5)[OF assms(3)] by blast
  have ne: "nextEngine w2 = Suc (nextEngine w)"
    using loadTemplates_frame(3)[OF assms(3)] applyOptions_frame[OF assms(2)]
      cloneBaseOptions_frame(5)[OF assms(1)] by simp
  have drop: "drop (length (events w)) (events w') =
      replicate (length options) OptionApplied @
      ParsersNewLoader (executerOpts (fst (fst (createEphemeralObjects (eng e) (opts tmp1) w1)))) # evs @
      [ExecuteScanWithOpts (nextEngine w2) (Templates store) (map MetaInput targets) False,
       WorkPoolWait (nextEngine w2)]"
    by (simp add: w' sw(1) ev2 ev1)
  have only: "\<forall>x. WorkPoolWait x \<in> set (drop (length (events w)) (events w')) \<longrightarrow> x = nextEngine w2"
    unfolding drop using evs by auto
  have ev: "events w' =
      events w2 @ [ExecuteScanWithOpts (nextEngine w2) (Templates store) (Inputs (loadTargets targets)) False,
                   WorkPoolWait (nextEngine w2)]"
    by (simp add: w' sw(1) loadTargets_Inputs)
  have fresh: "nextEngine w \<le> nextEngine w2 \<and> nextEngine w2 < nextEngine w'"
    by (simp add: w' sw(4) ne)
  have cell: "engineHeap w' (nextEngine w2) =
      \<lparr>engineOptions = opts tmp1, engineExecuterOptions = Some (executerOpts u)\<rparr>"
    unfolding w' by (rule sw(5))
  show ?thesis
    using ev fresh cell only by blast
qed

theorem waits_on_own_work_pool_witness:
  "last (events (snd (ExecuteNucleiWithOpts (example_env [Template ''t1''] []) example_facade
          [''example.com''] [with_RateLimit 10] example_world))) = WorkPoolWait 1
   \<and> last (butlast (events (snd (ExecuteNucleiWithOpts (example_env [Template ''t1''] [])
          example_facade [''example.com''] [with_RateLimit 10] example_world))))
       = ExecuteScanWithOpts 1 [Template ''t1''] [MetaInput ''example.com''] False"
proof -
  obtain tmp w0 where c: "cloneBaseOptions example_facade example_world = (tmp, w0)"
    by (metis prod.collapse)
  obtain tmp1 w1 where a: "applyOptions [with_RateLimit 10] tmp w0 = (None, tmp1, w1)"
    by (simp add: with_RateLimit_def)
  obtain u w2 where l: "loadTemplates (example_env [Template ''t1''] []) example_facade tmp1 w1
      = (Inr (u, \<lparr>Templates = [Template ''t1''], Workflows = []\<rparr>), w2)"
    using example_env_loads by blast
  have t: "\<not> (length (Templates \<lparr>Templates = [Template ''t1''], Workflows = []\<rparr>) = 0
            \<and> length (Workflows \<lparr>Templates = [Template ''t1''], Workflows = []\<rparr>) = 0)"
    by simp
  have n: "inputProvider_Count (loadTargets [''example.com'']) \<noteq> 0"
    by (simp add: inputProvider_Count_def loadTargets_Inputs)
  obtain r w' where x: "ExecuteNucleiWithOpts (example_env [Template ''t1''] []) example_facade
          [''example.com''] [with_RateLimit 10] example_world = (r, w')"
    by (metis prod.collapse)
  have ne: "nextEngine w2 = 1"
    using loadTemplates_frame(3)[OF l] applyOptions_frame[OF a] cloneBaseOptions_frame(5)[OF c]
    by (simp add: example_world_def)
  have "events w' = events w2 @
      [ExecuteScanWithOpts (nextEngine w2)
         (Templates \<lparr>Templates = [Template ''t1''], Workflows = []\<rparr>)
         (Inputs (loadTargets [''example.com''])) False,
       WorkPoolWait (nextEngine w2)]"
    using waits_on_own_work_pool[OF c a l t n x] by (rule conjunct1)
  then have "events w' = events w2 @
      [ExecuteScanWithOpts 1 [Template ''t1''] [MetaInput ''example.com''] False, WorkPoolWait 1]"
    by (simp add: ne loadTargets_Inputs)
  then have "last (events w') = WorkPoolWait 1
      \<and> last (butlast (events w'))
          = ExecuteScanWithOpts 1 [Template ''t1''] [MetaInput ''example.com''] False"
    by (simp add: butlast_append)
  then show ?thesis
    by (simp add: x)
qed

text \<open>
  C10: every scan a call starts receives the resolved templates, the input provider's
  inputs and the flag \<^verbatim>\<open>false\<close>; a call that passes validation (a template or a workflow
  resolved, a target given) returns \<^verbatim>\<open>nil\<close> after exactly one such scan, on its own engine,
  followed by the wait, and a call that fails validation starts no scan; with zero
  templates, at least one workflow and at least one target the call passes validation,
  returns \<^verbatim>\<open>nil\<close> and scans with an empty template list; and the outcome of the call
  depends on the resolved workflows only through whether there are any.
\<close>
theorem only_templates_reach_executor:
  assumes "cloneBaseOptions e w = (tmp, w0)"
      and "applyOptions options tmp w0 = (None, tmp1, w1)"
      and "loadTemplates env e tmp1 w1 = (Inr (u, store), w2)"
      and "ExecuteNucleiWithOpts env e targets options w = (r, w')"
  shows "(\<forall>x t i d. ExecuteScanWithOpts x t i d \<in> set (drop (length (events w)) (events w'))
            \<longrightarrow> t = Templates store \<and> i = Inputs (loadTargets targets) \<and> d = False)
       \<and> (\<not> (Templates store = [] \<and> Workflows store = []) \<and> targets \<noteq> []
            \<longrightarrow> r = None
                \<and> events w' =
                    events w2 @
                    [ExecuteScanWithOpts (nextEngine w2) (Templates store)
                       (Inputs (loadTargets targets)) False,
                     WorkPoolWait (nextEngine w2)])
       \<and> ((Templates store = [] \<and> Workflows store = []) \<or> targets = []
            \<longrightarrow> r \<noteq> None \<and> events w' = events w2)
       \<and> (Templates store = [] \<and> Workflows store \<noteq> [] \<and> targets \<noteq> []
            \<longrightarrow> r = None
                \<and> ExecuteScanWithOpts (nextEngine w2) [] (Inputs (loadTargets targets)) False
                    \<in> set (drop (length (events w)) (events w')))
       \<and> (\<forall>env' store'.
             loadTemplates env' e tmp1 w1 = (Inr (u, store'), w2)
             \<and> Templates store' = Templates store
             \<and> (Workflows store' = [] \<longleftrightarrow> Workflows store = [])
            \<longrightarrow> ExecuteNucleiWithOpts env' e targets options w = (r, w'))"
proof -
  note unfold = ExecuteNucleiWithOpts_loaded[OF assms(1,2)]
  note sw = scanWorld_frame[where ?w2.0 = w2 and tmp = tmp1 and u = u and store = store
      and targets = targets]
  have ev1: "events w1 = events w @ replicate (length options) OptionApplied"
    using applyOptions_events_ok[OF assms(2)] cloneBaseOptions_frame(4)[OF assms(1)] by simp
  obtain evs where ev2: "events w2 = events w1 @
      ParsersNewLoader (executerOpts (fst (fst (createEphemeralObjects (eng e) (opts tmp1) w1)))) # evs"
    and evs: "set evs \<subseteq> range LoaderNew \<union> {StoreLoad}"
    using loadTemplates_frame(5)[OF assms(3)] by blast
  have pre: "drop (length (events w)) (events w2) =
      replicate (length options) OptionApplied @
      ParsersNewLoader (executerOpts (fst (fst (createEphemeralObjects (eng e) (opts tmp1) w1)))) # evs"
    by (simp add: ev2 ev1)
  have noscan: "ExecuteScanWithOpts x t i d \<notin> set (drop (length (events w)) (events w2))" for x t i d
    unfolding pre using evs by auto
  have len: "length (events w) \<le> length (events w2)"
    by (simp add: ev2 ev1)
  consider (failed) "w' = w2" "r \<noteq> None"
    | (scanned) "w' = scanWorld tmp1 u store targets w2" "r = None"
        "\<not> (Templates store = [] \<and> Workflows store = [])" "targets \<noteq> []"
    using assms(4) unfolding unfold[OF assms(3)] by (auto split: if_splits)
  then have first: "\<forall>x t i d. ExecuteScanWithOpts x t i d \<in> set (drop (length (events w)) (events w'))
            \<longrightarrow> t = Templates store \<and> i = Inputs (loadTargets targets) \<and> d = False"
  proof cases
    case failed
    then show ?thesis using noscan by simp
  next
    case scanned
    have "drop (length (events w)) (events w') = drop (length (events w)) (events w2) @
        [ExecuteScanWithOpts (nextEngine w2) (Templates store) (map MetaInput targets) False,
         WorkPoolWait (nextEngine w2)]"
      using len by (simp add: scanned(1) sw(1))
    then show ?thesis using noscan by (auto simp: loadTargets_Inputs)
  qed
  have second: "Templates store = [] \<and> Workflows store \<noteq> [] \<and> targets \<noteq> []
            \<longrightarrow> r = None
                \<and> ExecuteScanWithOpts (nextEngine w2) [] (Inputs (loadTargets targets)) False
                    \<in> set (drop (length (events w)) (events w'))"
  proof (intro impI)
    assume h: "Templates store = [] \<and> Workflows store \<noteq> [] \<and> targets \<noteq> []"
    then have r: "r = None" and w': "w' = scanWorld tmp1 u store targets w2"
      using assms(4) unfolding unfold[OF assms(3)] by auto
    have "drop (length (events w)) (events w') = drop (length (events w)) (events w2) @
        [ExecuteScanWithOpts (nextEngine w2) (Templates store) (map MetaInput targets) False,
         WorkPoolWait (nextEngine w2)]"
      using len by (simp add: w' sw(1))
    then show "r = None
                \<and> ExecuteScanWithOpts (nextEngine w2) [] (Inputs (loadTargets targets)) False
                    \<in> set (drop (length (events w)) (events w'))"
      using h r by (simp add: loadTargets_Inputs)
  qed
  have positive: "\<not> (Templates store = [] \<and> Workflows store = []) \<and> targets \<noteq> []
            \<longrightarrow> r = None
                \<and> events w' =
                    events w2 @
                    [ExecuteScanWithOpts (nextEngine w2) (Templates store)
                       (Inputs (loadTargets targets)) False,
                     WorkPoolWait (nextEngine w2)]"
    using assms(4) unfolding unfold[OF assms(3)]
    by (auto simp: sw(1) loadTargets_Inputs)
  have negative: "(Templates store = [] \<and> Workflows store = []) \<or> targets = []
            \<longrightarrow> r \<noteq> None \<and> events w' = events w2"
    using assms(4) unfolding unfold[OF assms(3)]
    by (auto split: if_splits)
  have third: "\<forall>env' store'.
             loadTemplates env' e tmp1 w1 = (Inr (u, store'), w2)
             \<and> Templates store' = Templates store
             \<and> (Workflows store' = [] \<longleftrightarrow> Workflows store = [])
            \<longrightarrow> ExecuteNucleiWithOpts env' e targets options w = (r, w')"
  proof (intro allI impI)
    fix env' store'
    assume h: "loadTemplates env' e tmp1 w1 = (Inr (u, store'), w2)
             \<and> Templates store' = Templates store
             \<and> (Workflows store' = [] \<longleftrightarrow> Workflows store = [])"
    have "scanWorld tmp1 u store' targets w2 = scanWorld tmp1 u store targets w2"
      using h by (simp add: scanWorld_def)
    then have "ExecuteNucleiWithOpts env' e targets options w
        = ExecuteNucleiWithOpts env e targets options w"
      using h unfolding unfold[OF assms(3)] unfold[OF conjunct1[OF h]] by simp
    then show "ExecuteNucleiWithOpts env' e targets options w = (r, w')"
      using assms(4) by simp
  qed
  show ?thesis
    using first positive negative second third by blast
qed

theorem only_templates_reach_executor_witness:
  "fst (ExecuteNucleiWithOpts (example_env [Template ''t1''] [Template ''workflow''])
          example_facade [''example.com''] [with_RateLimit 10] example_world) = None
   \<and> ExecuteScanWithOpts 1 [Template ''t1''] [MetaInput ''example.com''] False
       \<in> set (events (snd (ExecuteNucleiWithOpts
                (example_env [Template ''t1''] [Template ''workflow''])
                example_facade [''example.com''] [with_RateLimit 10] example_world)))
   \<and> fst (ExecuteNucleiWithOpts (example_env [] [Template ''workflow'']) example_facade
          [''example.com''] [with_RateLimit 10] example_world) = None
   \<and> ExecuteScanWithOpts 1 [] [MetaInput ''example.com''] False
       \<in> set (events (snd (ExecuteNucleiWithOpts (example_env [] [Template ''workflow''])
                example_facade [''example.com''] [with_RateLimit 10] example_world)))"
proof -
  obtain tmp w0 where c: "cloneBaseOptions example_facade example_world = (tmp, w0)"
    by (metis prod.collapse)
  obtain tmp1 w1 where a: "applyOptions [with_RateLimit 10] tmp w0 = (None, tmp1, w1)"
    by (simp add: with_RateLimit_def)
  obtain u w2 where l:
    "loadTemplates (example_env [] [Template ''workflow'']) example_facade tmp1 w1
      = (Inr (u, \<lparr>Templates = [], Workflows = [Template ''workflow'']\<rparr>), w2)"
    using example_env_loads by blast
  obtain r w' where x: "ExecuteNucleiWithOpts (example_env [] [Template ''workflow''])
          example_facade [''example.com''] [with_RateLimit 10] example_world = (r, w')"
    by (metis prod.collapse)
  obtain u' v2 where l':
    "loadTemplates (example_env [Template ''t1''] [Template ''workflow'']) example_facade tmp1 w1
      = (Inr (u', \<lparr>Templates = [Template ''t1''], Workflows = [Template ''workflow'']\<rparr>), v2)"
    using example_env_loads by blast
  obtain s v' where x': "ExecuteNucleiWithOpts
          (example_env [Template ''t1''] [Template ''workflow''])
          example_facade [''example.com''] [with_RateLimit 10] example_world = (s, v')"
    by (metis prod.collapse)
  have ne: "nextEngine w2 = 1" "nextEngine v2 = 1"
    using loadTemplates_frame(3)[OF l] loadTemplates_frame(3)[OF l'] applyOptions_frame[OF a]
      cloneBaseOptions_frame(5)[OF c]
    by (simp_all add: example_world_def)
  have "Templates \<lparr>Templates = [], Workflows = [Template ''workflow'']\<rparr> = []
        \<and> Workflows \<lparr>Templates = [], Workflows = [Template ''workflow'']\<rparr> \<noteq> []
        \<and> [''example.com''] \<noteq> []
      \<longrightarrow> r = None
        \<and> ExecuteScanWithOpts (nextEngine w2) [] (Inputs (loadTargets [''example.com''])) False
            \<in> set (drop (length (events example_world)) (events w'))"
    using only_templates_reach_executor[OF c a l x] by blast
  then have empty: "r = None
      \<and> ExecuteScanWithOpts 1 [] [MetaInput ''example.com''] False \<in> set (events w')"
    by (simp add: ne loadTargets_Inputs example_world_def)
  have "\<not> (Templates \<lparr>Templates = [Template ''t1''], Workflows = [Template ''workflow'']\<rparr> = []
          \<and> Workflows \<lparr>Templates = [Template ''t1''], Workflows = [Template ''workflow'']\<rparr> = [])
        \<and> [''example.com''] \<noteq> []
      \<longrightarrow> s = None
        \<and> events v' = events v2 @
            [ExecuteScanWithOpts (nextEngine v2)
               (Templates \<lparr>Templates = [Template ''t1''], Workflows = [Template ''workflow'']\<rparr>)
               (Inputs (loadTargets [''example.com''])) False,
             WorkPoolWait (nextEngine v2)]"
    using only_templates_reach_executor[OF c a l' x'] by blast
  then have full: "s = None
      \<and> ExecuteScanWithOpts 1 [Template ''t1''] [MetaInput ''example.com''] False \<in> set (events v')"
    by (simp add: ne loadTargets_Inputs)
  show ?thesis
    using empty full by (simp add: x x')
qed

subsection \<open>The input provider's count\<close>

text \<open>
  C8, as stated: after loading, the provider's count is the number of distinct targets,
  so a sequence holding one target twice gives a count of one. The provider keeps
  duplicates: that sequence gives a count of two.
\<close>
theorem loadTargets_dedup_counterexample:
  "inputProvider_Count (loadTargets [''example.com'', ''example.com''])
     \<noteq> card (set [''example.com'', ''example.com''])
   \<and> inputProvider_Count (loadTargets [''example.com'', ''example.com'']) \<noteq> 1"
  by (simp add: inputProvider_Count_def loadTargets_Inputs)

text \<open>
  C8, amended: after loading, the provider holds one input per element of the targets
  sequence, in order and with duplicates preserved, and its count is the length of the
  sequence.
\<close>
theorem loadTargets_preserves_duplicates:
  "inputProvider_Count (loadTargets targets) = length targets
   \<and> Inputs (loadTargets targets) = map MetaInput targets"
  by (simp add: inputProvider_Count_def loadTargets_Inputs)

subsection \<open>Construction of the ephemeral objects\<close>

text \<open>
  C9: \<^verbatim>\<open>createEphemeralObjects\<close> returns a \<^verbatim>\<open>nil\<close> error for every engine, options
  address and store; hence a call whose option functions succeed always goes on to
  construct the workflow loader, and the error branch after line 106 is never taken.
\<close>
theorem createEphemeralObjects_never_fails:
  "snd (fst (createEphemeralObjects base options w)) = None
   \<and> (cloneBaseOptions e w = (tmp, w0) \<and> applyOptions fs tmp w0 = (None, tmp1, w1)
        \<longrightarrow> ParsersNewLoader (executerOpts (fst (fst (createEphemeralObjects (eng e) (opts tmp1) w1))))
              \<in> set (events (snd (ExecuteNucleiWithOpts env e targets fs w))))"
proof -
  have total: "snd (fst (createEphemeralObjects base options w)) = None"
    using createEphemeralObjects_frame(6)[of base options w
        "fst (fst (createEphemeralObjects base options w))"
        "snd (fst (createEphemeralObjects base options w))"
        "snd (createEphemeralObjects base options w)"]
    by simp
  have reach: "ParsersNewLoader (executerOpts (fst (fst (createEphemeralObjects (eng e) (opts tmp1) w1))))
              \<in> set (events (snd (ExecuteNucleiWithOpts env e targets fs w)))"
    if c: "cloneBaseOptions e w = (tmp, w0)" and a: "applyOptions fs tmp w0 = (None, tmp1, w1)"
  proof -
    obtain r w' where x: "ExecuteNucleiWithOpts env e targets fs w = (r, w')"
      by (metis prod.collapse)
    have in_loaded: "ParsersNewLoader
        (executerOpts (fst (fst (createEphemeralObjects (eng e) (opts tmp1) w1)))) \<in> set (events w2)"
      if "loadTemplates env e tmp1 w1 = (rl, w2)" for rl w2
      using loadTemplates_frame(5)[OF that] by auto
    have "ParsersNewLoader (executerOpts (fst (fst (createEphemeralObjects (eng e) (opts tmp1) w1))))
        \<in> set (events w')"
    proof (rule ExecuteNucleiWithOpts_world[OF c x], goal_cases)
      case (1 err t1)
      then show ?case using a by simp
    next
      case (2 t1 v1 err)
      then show ?case using a in_loaded by simp
    next
      case (3 t1 v1 u store)
      then show ?case using a in_loaded by simp
    next
      case (4 t1 v1 u store w2)
      then have "v1 = w1" "t1 = tmp1" using a by simp_all
      then show ?case
        using in_loaded[of "Inr (u, store)" w2] 4 by (simp add: scanWorld_frame(1))
    qed
    then show ?thesis by (simp add: x)
  qed
  show ?thesis
    using total reach by blast
qed

theorem createEphemeralObjects_never_fails_witness:
  "snd (fst (createEphemeralObjects (eng example_facade) 0 example_world)) = None
   \<and> (\<exists>x. ParsersNewLoader x
        \<in> set (events (snd (ExecuteNucleiWithOpts (example_env [] []) example_facade []
             [with_RateLimit 10] example_world))))"
proof -
  obtain tmp w0 where c: "cloneBaseOptions example_facade example_world = (tmp, w0)"
    by (metis prod.collapse)
  obtain tmp1 w1 where a: "applyOptions [with_RateLimit 10] tmp w0 = (None, tmp1, w1)"
    by (simp add: with_RateLimit_def)
  show ?thesis
    using createEphemeralObjects_never_fails[of "eng example_facade" 0 example_world
        example_facade tmp w0 "[with_RateLimit 10]" tmp1 w1 "example_env [] []" "[]"] c a
    by blast
qed

end
